theory Spec2Isabelle
  imports Complex_Main
begin

section \<open>Data model of \<^verbatim>\<open>eth_macd_strategy.py\<close>\<close>

text \<open>
  Python ints are \<open>int\<close>. A finite Python float is the real number it denotes, and the
  arithmetic of Python on floats rounds every result to the nearest double (section
  \<open>Double-precision arithmetic\<close>). An exception is a value: a function that can raise
  returns \<open>py_error + 'a\<close>, with \<open>Inl\<close> for the exception. The messages of the
  exceptions are not modelled.
\<close>

datatype py_error = ValueError | ZeroDivisionError | OverflowError

definition LEVERAGE :: int where
  "LEVERAGE = 100"

definition CONTRACT_MULTIPLIER :: real where
  "CONTRACT_MULTIPLIER = 1"

record StrategyInputs =
  fast_length :: int
  slow_length :: int
  signal_length :: int
  macd_delta_min :: real
  bb_min_expansion :: real
  bars_to_kill :: int
  atr_trail_mult :: real
  min_profit_roi :: real
  normalization_lookback :: int
  weight_macd :: real
  weight_bb :: real
  weight_rsi :: real
  strength_threshold :: string
  use_trend_filter :: bool
  use_volume_filter :: bool
  volume_ma_length :: int

record TrailingStopConfig =
  start_roi :: real
  step_roi :: real
  stop_loss_roi :: real

text \<open>
  The fields of the dataclass \<^verbatim>\<open>TradePlan\<close> carry the prefix \<open>plan_\<close>: \<open>side\<close>,
  \<open>entry_price\<close>, \<open>peak_roi\<close> are parameter names of the functions below and \<open>size\<close> is a
  constant of HOL.
\<close>

record TradePlan =
  plan_side :: string
  plan_entry_price :: real
  plan_stop_loss_price :: real
  plan_trailing_stop_price :: real
  plan_take_profit_price :: real
  plan_size :: int
  plan_peak_roi :: real
  plan_timestamp_ms :: int

text \<open>
  \<^verbatim>\<open>math.isclose(a, b, rel_tol=r)\<close> with the default \<^verbatim>\<open>abs_tol=0\<close>, on finite
  floats: \<^verbatim>\<open>abs(a-b) <= max(r * max(abs(a), abs(b)), 0)\<close>.
\<close>

definition math_isclose :: "real \<Rightarrow> real \<Rightarrow> real \<Rightarrow> bool" where
  "math_isclose a b rel_tol \<longleftrightarrow> \<bar>a - b\<bar> \<le> max (rel_tol * max \<bar>a\<bar> \<bar>b\<bar>) 0"

text \<open>
  \<^verbatim>\<open>StrategyInputs.validate\<close>: the loop over the six length fields, in the source's
  order, then the three checks on thresholds and weights. The sum of the three weights
  is taken exactly: its rounding is below \<open>10\<^sup>-\<^sup>1\<^sup>5\<close>, the tolerance of the test is
  \<open>10\<^sup>-\<^sup>6\<close>.
\<close>

definition validate_inputs :: "StrategyInputs \<Rightarrow> py_error + unit" where
  "validate_inputs self =
     (if list_ex (\<lambda>v. v < 1)
           [fast_length self, slow_length self, signal_length self, bars_to_kill self,
            normalization_lookback self, volume_ma_length self]
      then Inl ValueError
      else if macd_delta_min self < 0 \<or> bb_min_expansion self < 0 then Inl ValueError
      else if \<not> (0 \<le> weight_macd self \<and> weight_macd self \<le> 1)
            \<or> \<not> (0 \<le> weight_bb self \<and> weight_bb self \<le> 1)
            \<or> \<not> (0 \<le> weight_rsi self \<and> weight_rsi self \<le> 1)
      then Inl ValueError
      else let total_weight = weight_macd self + weight_bb self + weight_rsi self
           in if \<not> math_isclose total_weight 1 (1 / 10 ^ 6) then Inl ValueError
              else Inr ())"

text \<open>\<^verbatim>\<open>TrailingStopConfig.validate\<close>.\<close>

definition validate_trailing :: "TrailingStopConfig \<Rightarrow> py_error + unit" where
  "validate_trailing self =
     (if start_roi self \<le> 0 \<or> step_roi self \<le> 0 \<or> stop_loss_roi self \<le> 0
      then Inl ValueError else Inr ())"

section \<open>Double-precision arithmetic\<close>

text \<open>
  The doubles are the reals \<open>m * 2\<^sup>j\<close> with an integer \<open>\<bar>m\<bar> \<le> 2\<^sup>5\<^sup>3\<close> and \<open>j \<ge> -1074\<close>.
  \<open>binary64 x\<close> is the double nearest to \<open>x\<close>, a tie going to the even neighbour (IEEE
  754 round-to-nearest-even, with gradual underflow): \<open>x\<close> is divided by the spacing
  \<open>ulp x\<close> of the doubles around it, rounded to an integer and scaled back. Every
  arithmetic operation of Python on two finite floats returns \<open>binary64\<close> of the exact
  result. A result of magnitude \<open>2\<^sup>1\<^sup>0\<^sup>2\<^sup>4\<close> or more is an infinity in Python; the
  position sizer models this overflow, the functions on prices and ROI percentages,
  whose values are far from it, do not.
\<close>

definition rne :: "real \<Rightarrow> int" where
  "rne x = (let f = \<lfloor>x\<rfloor>; d = x - of_int f
            in if d < 1 / 2 then f else if 1 / 2 < d then f + 1
               else if even f then f else f + 1)"

definition expo :: "real \<Rightarrow> int" where
  "expo x = max \<lfloor>log 2 \<bar>x\<bar>\<rfloor> (- 1022)"

definition ulp :: "real \<Rightarrow> real" where
  "ulp x = 2 powi (expo x - 52)"

definition binary64 :: "real \<Rightarrow> real" where
  "binary64 x = of_int (rne (x / ulp x)) * ulp x"

text \<open>
  The arithmetic of a function is a parameter: \<open>Binary64\<close> is the arithmetic of the
  code, \<open>Exact\<close> is the same expression without rounding (the rational arithmetic that
  the spec's round-trip property names). \<open>fl\<close> is the rounding of one operation.
\<close>

datatype arith = Exact | Binary64

fun fl :: "arith \<Rightarrow> real \<Rightarrow> real" where
  "fl Exact x = x"
| "fl Binary64 x = binary64 x"

text \<open>
  An int operand of a float operation is converted to a float first; Python raises
  \<^verbatim>\<open>OverflowError\<close> for an int too large for a double.
\<close>

fun int_to_float :: "arith \<Rightarrow> int \<Rightarrow> py_error + real" where
  "int_to_float Exact n = Inr (of_int n)"
| "int_to_float Binary64 n =
     (let y = binary64 (of_int n)
      in if 2 powi 1024 \<le> \<bar>y\<bar> then Inl OverflowError else Inr y)"

section \<open>Helper functions\<close>

text \<open>
  \<^verbatim>\<open>pct_to_price\<close>: the division by \<^verbatim>\<open>leverage\<close> raises
  \<^verbatim>\<open>ZeroDivisionError\<close> when the leverage is 0. The side is a Python string, and every
  string other than \<^verbatim>\<open>"long"\<close> takes the second branch.
\<close>

definition pct_to_price :: "arith \<Rightarrow> string \<Rightarrow> real \<Rightarrow> real \<Rightarrow> int \<Rightarrow> py_error + real" where
  "pct_to_price ar side entry_price roi_percent leverage =
     (case int_to_float ar leverage of
        Inl err \<Rightarrow> Inl err
      | Inr lev \<Rightarrow>
          if lev = 0 then Inl ZeroDivisionError
          else let price_delta_ratio = fl ar (fl ar (roi_percent / lev) / 100)
               in Inr (if side = ''long''
                       then fl ar (entry_price * fl ar (1 + price_delta_ratio))
                       else fl ar (entry_price * fl ar (1 - price_delta_ratio))))"

definition price_to_roi :: "arith \<Rightarrow> string \<Rightarrow> real \<Rightarrow> real \<Rightarrow> int \<Rightarrow> py_error + real" where
  "price_to_roi ar side entry_price current_price leverage =
     (if entry_price \<le> 0 then Inl ValueError
      else let price_change =
                 fl ar (fl ar (fl ar (current_price - entry_price) / entry_price) * 100)
           in case int_to_float ar leverage of
                Inl err \<Rightarrow> Inl err
              | Inr lev \<Rightarrow>
                  (let raw_roi = fl ar (price_change * lev)
                   in Inr (if side = ''long'' then raw_roi else - raw_roi)))"

section \<open>Floating-point values of a pandas series\<close>

text \<open>
  An entry of a pandas series is a float64 that may be NaN (the missing value) or an
  infinity (the result of a division by 0, which numpy does not raise on). The finite
  values are exact reals: rounding, overflow and the sign of zero are not modelled.
\<close>

datatype f64 = NaN | NInf | Fin real | PInf

definition f64_inf :: "bool \<Rightarrow> f64" where
  "f64_inf positive = (if positive then PInf else NInf)"

fun f64_neg :: "f64 \<Rightarrow> f64" where
  "f64_neg (Fin a) = Fin (- a)"
| "f64_neg NaN = NaN"
| "f64_neg NInf = PInf"
| "f64_neg PInf = NInf"

fun f64_abs :: "f64 \<Rightarrow> f64" where
  "f64_abs (Fin a) = Fin \<bar>a\<bar>"
| "f64_abs NaN = NaN"
| "f64_abs _ = PInf"

fun f64_add :: "f64 \<Rightarrow> f64 \<Rightarrow> f64" where
  "f64_add (Fin a) (Fin b) = Fin (a + b)"
| "f64_add NaN _ = NaN"
| "f64_add _ NaN = NaN"
| "f64_add PInf NInf = NaN"
| "f64_add NInf PInf = NaN"
| "f64_add PInf _ = PInf"
| "f64_add _ PInf = PInf"
| "f64_add NInf _ = NInf"
| "f64_add _ NInf = NInf"

definition f64_sub :: "f64 \<Rightarrow> f64 \<Rightarrow> f64" where
  "f64_sub x y = f64_add x (f64_neg y)"

fun f64_mul :: "f64 \<Rightarrow> f64 \<Rightarrow> f64" where
  "f64_mul (Fin a) (Fin b) = Fin (a * b)"
| "f64_mul NaN _ = NaN"
| "f64_mul _ NaN = NaN"
| "f64_mul (Fin a) y = (if a = 0 then NaN else f64_inf ((0 < a) = (y = PInf)))"
| "f64_mul x (Fin b) = (if b = 0 then NaN else f64_inf ((x = PInf) = (0 < b)))"
| "f64_mul x y = f64_inf ((x = PInf) = (y = PInf))"

text \<open>
  Division never raises: a finite value over 0 is an infinity (of the sign of the
  numerator, the zero taken as positive), 0 over 0 and infinity over infinity are NaN.
\<close>

fun f64_div :: "f64 \<Rightarrow> f64 \<Rightarrow> f64" where
  "f64_div (Fin a) (Fin b) =
     (if b = 0 then (if a = 0 then NaN else f64_inf (0 < a)) else Fin (a / b))"
| "f64_div NaN _ = NaN"
| "f64_div _ NaN = NaN"
| "f64_div (Fin a) y = Fin 0"
| "f64_div x (Fin b) = f64_inf ((x = PInf) = (0 \<le> b))"
| "f64_div x y = NaN"

fun f64_sqrt :: "f64 \<Rightarrow> f64" where
  "f64_sqrt (Fin a) = (if a < 0 then NaN else Fin (sqrt a))"
| "f64_sqrt PInf = PInf"
| "f64_sqrt _ = NaN"

text \<open>Comparisons: every comparison with NaN is false.\<close>

fun f64_lt :: "f64 \<Rightarrow> f64 \<Rightarrow> bool" where
  "f64_lt (Fin a) (Fin b) = (a < b)"
| "f64_lt NaN _ = False"
| "f64_lt _ NaN = False"
| "f64_lt NInf y = (y \<noteq> NInf)"
| "f64_lt x PInf = (x \<noteq> PInf)"
| "f64_lt _ _ = False"

fun f64_eq :: "f64 \<Rightarrow> f64 \<Rightarrow> bool" where
  "f64_eq (Fin a) (Fin b) = (a = b)"
| "f64_eq NaN _ = False"
| "f64_eq _ NaN = False"
| "f64_eq x y = (x = y)"

definition f64_le :: "f64 \<Rightarrow> f64 \<Rightarrow> bool" where
  "f64_le x y \<longleftrightarrow> f64_lt x y \<or> f64_eq x y"

definition f64_gt :: "f64 \<Rightarrow> f64 \<Rightarrow> bool" where
  "f64_gt x y \<longleftrightarrow> f64_lt y x"

definition f64_ge :: "f64 \<Rightarrow> f64 \<Rightarrow> bool" where
  "f64_ge x y \<longleftrightarrow> f64_le y x"

text \<open>
  Python's \<^verbatim>\<open>max(a, b)\<close> keeps \<open>a\<close> unless \<^verbatim>\<open>b > a\<close>, and \<^verbatim>\<open>min(a, b)\<close> keeps \<open>a\<close>
  unless \<^verbatim>\<open>b < a\<close>: with a NaN second argument both return the first.
\<close>

definition py_max :: "f64 \<Rightarrow> f64 \<Rightarrow> f64" where
  "py_max a b = (if f64_gt b a then b else a)"

definition py_min :: "f64 \<Rightarrow> f64 \<Rightarrow> f64" where
  "py_min a b = (if f64_lt b a then b else a)"

text \<open>
  \<^verbatim>\<open>math.isclose(a, b)\<close> with its defaults \<^verbatim>\<open>rel_tol=1e-09, abs_tol=0.0\<close>: equal
  values (two infinities of one sign among them) are close, an infinity is close to
  nothing else, and NaN is close to nothing.
\<close>

fun isclose :: "f64 \<Rightarrow> f64 \<Rightarrow> bool" where
  "isclose (Fin a) (Fin b) = math_isclose a b (1 / 10 ^ 9)"
| "isclose NaN _ = False"
| "isclose _ NaN = False"
| "isclose x y = (x = y)"

text \<open>
  The operations of Python on floats that may be NaN or infinite: the result of the
  series operation, rounded to a double, and an infinity on overflow. Python's division
  raises \<^verbatim>\<open>ZeroDivisionError\<close> on a zero divisor; the caller tests the divisor before
  it uses \<open>float_div\<close>. \<^verbatim>\<open>math.floor\<close> raises \<^verbatim>\<open>ValueError\<close> on NaN and
  \<^verbatim>\<open>OverflowError\<close> on an infinity.
\<close>

definition f64_round :: "real \<Rightarrow> f64" where
  "f64_round x = (let y = binary64 x in if 2 powi 1024 \<le> \<bar>y\<bar> then f64_inf (0 < y) else Fin y)"

definition float_mul :: "f64 \<Rightarrow> f64 \<Rightarrow> f64" where
  "float_mul a b = (case f64_mul a b of Fin x \<Rightarrow> f64_round x | y \<Rightarrow> y)"

definition float_div :: "f64 \<Rightarrow> f64 \<Rightarrow> f64" where
  "float_div a b = (case f64_div a b of Fin x \<Rightarrow> f64_round x | y \<Rightarrow> y)"

fun math_floor :: "f64 \<Rightarrow> py_error + int" where
  "math_floor (Fin x) = Inr \<lfloor>x\<rfloor>"
| "math_floor NaN = Inl ValueError"
| "math_floor _ = Inl OverflowError"

section \<open>Operations of pandas on a series\<close>

text \<open>
  A series is the list of its values, under the default index \<open>0, 1, 2, ...\<close>. An
  operation on two series aligns them on the index: where one series has no entry the
  result is computed from NaN.
\<close>

type_synonym series = "f64 list"

definition iloc_or_nan :: "series \<Rightarrow> nat \<Rightarrow> f64" where
  "iloc_or_nan xs i = (if i < length xs then xs ! i else NaN)"

definition series_binop :: "(f64 \<Rightarrow> f64 \<Rightarrow> f64) \<Rightarrow> series \<Rightarrow> series \<Rightarrow> series" where
  "series_binop f xs ys =
     map (\<lambda>i. f (iloc_or_nan xs i) (iloc_or_nan ys i)) [0..<max (length xs) (length ys)]"

text \<open>\<^verbatim>\<open>s.diff()\<close> and \<^verbatim>\<open>s.shift(1)\<close>: the first entry is NaN.\<close>

definition shift1 :: "series \<Rightarrow> series" where
  "shift1 xs = (if xs = [] then [] else NaN # butlast xs)"

definition diff :: "series \<Rightarrow> series" where
  "diff xs = series_binop f64_sub xs (shift1 xs)"

text \<open>\<^verbatim>\<open>s.clip(lower=l)\<close> and \<^verbatim>\<open>s.clip(upper=u)\<close> keep NaN.\<close>

definition clip_lower :: "f64 \<Rightarrow> series \<Rightarrow> series" where
  "clip_lower l xs = map (\<lambda>x. if f64_lt x l then l else x) xs"

definition clip_upper :: "f64 \<Rightarrow> series \<Rightarrow> series" where
  "clip_upper u xs = map (\<lambda>x. if f64_gt x u then u else x) xs"

text \<open>\<^verbatim>\<open>s.replace(v, w)\<close>, \<^verbatim>\<open>s.fillna(v)\<close> and \<^verbatim>\<open>s.bfill()\<close>.\<close>

definition replace :: "f64 \<Rightarrow> f64 \<Rightarrow> series \<Rightarrow> series" where
  "replace v w xs = map (\<lambda>x. if f64_eq x v then w else x) xs"

definition fillna :: "f64 \<Rightarrow> series \<Rightarrow> series" where
  "fillna v xs = map (\<lambda>x. if x = NaN then v else x) xs"

fun bfill :: "series \<Rightarrow> series" where
  "bfill [] = []"
| "bfill (x # xs) =
     (let rest = bfill xs
      in (if x = NaN then (case rest of [] \<Rightarrow> NaN | y # _ \<Rightarrow> y) else x) # rest)"

text \<open>
  \<^verbatim>\<open>s.min()\<close>, \<^verbatim>\<open>s.max()\<close> and the row-wise \<^verbatim>\<open>max(axis=1)\<close> skip NaN, and are NaN
  when no value is left.
\<close>

definition series_min :: "series \<Rightarrow> f64" where
  "series_min xs =
     (case filter (\<lambda>x. x \<noteq> NaN) xs of
        [] \<Rightarrow> NaN
      | y # ys \<Rightarrow> fold (\<lambda>x acc. if f64_lt x acc then x else acc) ys y)"

definition series_max :: "series \<Rightarrow> f64" where
  "series_max xs =
     (case filter (\<lambda>x. x \<noteq> NaN) xs of
        [] \<Rightarrow> NaN
      | y # ys \<Rightarrow> fold (\<lambda>x acc. if f64_gt x acc then x else acc) ys y)"

definition concat_max :: "series list \<Rightarrow> series" where
  "concat_max cols =
     map (\<lambda>i. series_max (map (\<lambda>col. iloc_or_nan col i) cols))
       [0..<fold max (map length cols) 0]"

text \<open>
  \<^verbatim>\<open>s.tail(n)\<close>: the last \<open>n\<close> entries, no entry for \<open>n = 0\<close>, and all but the first
  \<open>-n\<close> entries for a negative \<open>n\<close>.
\<close>

definition tail :: "series \<Rightarrow> int \<Rightarrow> series" where
  "tail xs n = (if n = 0 then []
                else if n > 0 then drop (length xs - nat n) xs
                else drop (nat (- n)) xs)"

text \<open>
  \<^verbatim>\<open>s.rolling(window=w, min_periods=m)\<close>: the window of entry \<open>i\<close> holds the entries
  \<open>i - w + 1, ..., i\<close> that exist. The aggregate of a window is NaN unless the window
  has at least \<open>m\<close> entries that are not NaN (and at least one); \<open>m\<close> defaults to \<open>w\<close>.
  pandas refuses a negative window, a negative \<open>m\<close> and \<open>m > w\<close> with \<^verbatim>\<open>ValueError\<close>.
  The aggregate is computed from the entries of the window alone; the series that the
  indicators roll over come from finite bars by sums, differences and absolute values,
  so that no window holds an infinity.
\<close>

definition window_at :: "series \<Rightarrow> nat \<Rightarrow> nat \<Rightarrow> series" where
  "window_at xs w i = drop (Suc i - w) (take (Suc i) xs)"

definition f64_sum :: "series \<Rightarrow> f64" where
  "f64_sum xs = fold (\<lambda>x acc. f64_add acc x) xs (Fin 0)"

definition window_mean :: "nat \<Rightarrow> series \<Rightarrow> f64" where
  "window_mean minp win =
     (let obs = filter (\<lambda>x. x \<noteq> NaN) win; nobs = length obs
      in if nobs \<ge> minp \<and> nobs > 0 then f64_div (f64_sum obs) (Fin (real nobs)) else NaN)"

text \<open>\<^verbatim>\<open>.std(ddof=0)\<close>: the population standard deviation of the window.\<close>

definition window_std0 :: "nat \<Rightarrow> series \<Rightarrow> f64" where
  "window_std0 minp win =
     (let obs = filter (\<lambda>x. x \<noteq> NaN) win; nobs = length obs
      in if nobs \<ge> minp \<and> nobs > 0
         then let mean = f64_div (f64_sum obs) (Fin (real nobs));
                  ssqdm = f64_sum (map (\<lambda>x. f64_mul (f64_sub x mean) (f64_sub x mean)) obs)
              in f64_sqrt (f64_div ssqdm (Fin (real nobs)))
         else NaN)"

definition rolling :: "(nat \<Rightarrow> series \<Rightarrow> f64) \<Rightarrow> series \<Rightarrow> int \<Rightarrow> int option \<Rightarrow> py_error + series" where
  "rolling agg xs window min_periods =
     (let minp = (case min_periods of None \<Rightarrow> window | Some m \<Rightarrow> m)
      in if window < 0 \<or> minp < 0 \<or> minp > window then Inl ValueError
         else Inr (map (\<lambda>i. agg (nat minp) (window_at xs (nat window) i)) [0..<length xs]))"

section \<open>Indicators\<close>

text \<open>
  \<^verbatim>\<open>normalize_series\<close>. Behind the test for the empty series, \<^verbatim>\<open>series.iloc[-1]\<close>
  is the last entry.
\<close>

definition normalize_series :: "series \<Rightarrow> int \<Rightarrow> f64" where
  "normalize_series series lookback =
     (if series = [] then Fin 0
      else let window = tail series lookback;
               low = series_min window;
               high = series_max window
           in if isclose low high then Fin 0
              else py_max (Fin 0) (py_min (Fin 100)
                     (f64_mul (f64_div (f64_sub (last series) low) (f64_sub high low))
                        (Fin 100))))"

text \<open>
  \<^verbatim>\<open>ta_rsi\<close>. The local variables \<^verbatim>\<open>avg_gain\<close> and \<^verbatim>\<open>avg_loss\<close> are functions of
  their own, so that a statement can name them. The parameter \<^verbatim>\<open>length\<close> is written
  \<open>length'\<close>, \<open>length\<close> being the length of a list in HOL.
\<close>

definition rsi_avg_gain :: "series \<Rightarrow> int \<Rightarrow> py_error + series" where
  "rsi_avg_gain series length' =
     (let delta = diff series;
          gain = clip_lower (Fin 0) delta
      in rolling window_mean gain length' (Some length'))"

definition rsi_avg_loss :: "series \<Rightarrow> int \<Rightarrow> py_error + series" where
  "rsi_avg_loss series length' =
     (let delta = diff series;
          loss = map f64_neg (clip_upper (Fin 0) delta)
      in rolling window_mean loss length' (Some length'))"

definition ta_rsi :: "series \<Rightarrow> int \<Rightarrow> py_error + series" where
  "ta_rsi series length' =
     (case rsi_avg_gain series length' of
        Inl err \<Rightarrow> Inl err
      | Inr avg_gain \<Rightarrow>
     (case rsi_avg_loss series length' of
        Inl err \<Rightarrow> Inl err
      | Inr avg_loss \<Rightarrow>
          (let rs = series_binop f64_div avg_gain (replace (Fin 0) NaN avg_loss);
               rsi = map (\<lambda>x. f64_sub (Fin 100) (f64_div (Fin 100) (f64_add (Fin 1) x))) rs
           in Inr (fillna (Fin 50) rsi))))"

text \<open>\<^verbatim>\<open>ta_atr\<close>.\<close>

definition ta_atr :: "series \<Rightarrow> series \<Rightarrow> series \<Rightarrow> int \<Rightarrow> py_error + series" where
  "ta_atr highs lows closes length' =
     (let prev_close = shift1 closes;
          tr = concat_max
                 [series_binop f64_sub highs lows,
                  map f64_abs (series_binop f64_sub highs prev_close),
                  map f64_abs (series_binop f64_sub lows prev_close)]
      in case rolling window_mean tr length' (Some length') of
           Inl err \<Rightarrow> Inl err
         | Inr atr \<Rightarrow> Inr (bfill atr))"

text \<open>
  The Bollinger width and the volume average are lines 147 to 153 of
  \<^verbatim>\<open>compute_indicators\<close>: \<^verbatim>\<open>bb_width\<close> from the closes, with the window 20, and
  \<^verbatim>\<open>vol_ma\<close> from the volumes, with the window \<^verbatim>\<open>inputs.volume_ma_length\<close>.
\<close>

definition bollinger_width :: "series \<Rightarrow> py_error + series" where
  "bollinger_width closes =
     (case rolling window_mean closes 20 None of
        Inl err \<Rightarrow> Inl err
      | Inr bb_basis \<Rightarrow>
     (case rolling window_std0 closes 20 None of
        Inl err \<Rightarrow> Inl err
      | Inr std \<Rightarrow>
          (let bb_dev = map (f64_mul (Fin 2)) std;
               bb_upper = series_binop f64_add bb_basis bb_dev;
               bb_lower = series_binop f64_sub bb_basis bb_dev
           in Inr (map (\<lambda>x. f64_mul x (Fin 100))
                     (series_binop f64_div (series_binop f64_sub bb_upper bb_lower) closes)))))"

definition volume_average :: "series \<Rightarrow> StrategyInputs \<Rightarrow> py_error + series" where
  "volume_average volumes inputs = rolling window_mean volumes (volume_ma_length inputs) None"

section \<open>The signal scorer\<close>

text \<open>
  The indicator snapshot is the dictionary that \<^verbatim>\<open>compute_indicators\<close> builds, with
  its fixed keys: a record, so that no lookup fails. The score state is a dictionary
  from strings to floats or, for the reason, to a string: an association list.
\<close>

record IndicatorSnapshot =
  close :: f64
  fast_ema :: f64
  slow_ema :: f64
  macd_delta :: f64
  macd_slope :: f64
  bb_width :: f64
  rsi :: f64
  atr :: f64
  atr_percent :: f64
  bb_upper :: f64
  bb_lower :: f64
  vol_ma :: f64
  volume :: f64
  macd_line :: f64
  macd_signal :: f64
  delta_series :: series
  bb_width_series :: series
  rsi_series :: series

datatype dict_value = Str string | Num f64

definition clamp :: "f64 \<Rightarrow> f64 \<Rightarrow> f64 \<Rightarrow> f64" where
  "clamp v low high = py_max low (py_min high v)"

text \<open>\<^verbatim>\<open>thresholds.get(inputs.strength_threshold, thresholds["Medium"])\<close>.\<close>

definition required_score :: "string \<Rightarrow> real" where
  "required_score tier =
     (if tier = ''Weak'' then 60 else if tier = ''Medium'' then 75
      else if tier = ''Strong'' then 83 else 75)"

text \<open>
  \<^verbatim>\<open>determine_signal\<close>. Behind the test on \<^verbatim>\<open>len(delta_series)\<close>, the entry
  \<^verbatim>\<open>delta_series.iloc[-2]\<close> exists.
\<close>

definition determine_signal ::
  "IndicatorSnapshot \<Rightarrow> StrategyInputs \<Rightarrow> string option \<times> (string \<times> dict_value) list" where
  "determine_signal indicators inputs =
     (let macd_delta' = macd_delta indicators;
          delta_series' = delta_series indicators;
          bb_width_series' = bb_width_series indicators;
          rsi_series' = rsi_series indicators
      in if length delta_series' < 2
         then (None, [(''reason'', Str ''insufficient data for MACD crossover'')])
         else
         let prev_delta = delta_series' ! (length delta_series' - 2);
             crossed_above = (f64_le prev_delta (Fin 0) \<and> f64_gt macd_delta' (Fin 0));
             crossed_below = (f64_ge prev_delta (Fin 0) \<and> f64_lt macd_delta' (Fin 0));
             base_long = (crossed_above \<and> f64_gt macd_delta' (Fin (macd_delta_min inputs))
                          \<and> f64_gt (bb_width indicators) (Fin (bb_min_expansion inputs)));
             base_short = (crossed_below \<and> f64_lt macd_delta' (Fin (- macd_delta_min inputs))
                           \<and> f64_gt (bb_width indicators) (Fin (bb_min_expansion inputs)));
             trend_ok_long = (\<not> use_trend_filter inputs
                              \<or> f64_gt (fast_ema indicators) (slow_ema indicators));
             trend_ok_short = (\<not> use_trend_filter inputs
                               \<or> f64_lt (fast_ema indicators) (slow_ema indicators));
             volume_ok = (\<not> use_volume_filter inputs
                          \<or> f64_gt (volume indicators) (vol_ma indicators));
             lookback = normalization_lookback inputs;
             macd_mag = normalize_series (map f64_abs delta_series') lookback;
             macd_imp_pos = normalize_series (clip_lower (Fin 0) (diff delta_series')) lookback;
             macd_imp_neg =
               normalize_series (map f64_neg (clip_upper (Fin 0) (diff delta_series'))) lookback;
             macd_comp_long =
               f64_add (f64_mul (Fin (7 / 10)) macd_mag) (f64_mul (Fin (3 / 10)) macd_imp_pos);
             macd_comp_short =
               f64_add (f64_mul (Fin (7 / 10)) macd_mag) (f64_mul (Fin (3 / 10)) macd_imp_neg);
             bb_comp = normalize_series bb_width_series' lookback;
             rsi_comp_long =
               clamp (f64_div (f64_mul (Fin 100) (f64_sub (Fin 70) (rsi indicators))) (Fin 40))
                 (Fin 0) (Fin 100);
             rsi_comp_short =
               clamp (f64_div (f64_mul (Fin 100) (f64_sub (rsi indicators) (Fin 30))) (Fin 40))
                 (Fin 0) (Fin 100);
             score_long =
               f64_add (f64_add (f64_mul (Fin (weight_macd inputs)) macd_comp_long)
                          (f64_mul (Fin (weight_bb inputs)) bb_comp))
                 (f64_mul (Fin (weight_rsi inputs)) rsi_comp_long);
             score_short =
               f64_add (f64_add (f64_mul (Fin (weight_macd inputs)) macd_comp_short)
                          (f64_mul (Fin (weight_bb inputs)) bb_comp))
                 (f64_mul (Fin (weight_rsi inputs)) rsi_comp_short);
             required = required_score (strength_threshold inputs);
             strength_ok_long = f64_ge score_long (Fin required);
             strength_ok_short = f64_ge score_short (Fin required);
             side = (if base_long \<and> trend_ok_long \<and> volume_ok \<and> strength_ok_long
                     then Some ''long''
                     else if base_short \<and> trend_ok_short \<and> volume_ok \<and> strength_ok_short
                     then Some ''short''
                     else None);
             score_state =
               [(''score_long'', Num score_long),
                (''score_short'', Num score_short),
                (''required'', Num (Fin required)),
                (''macd_component_long'', Num macd_comp_long),
                (''macd_component_short'', Num macd_comp_short),
                (''bb_component'', Num bb_comp),
                (''rsi_component_long'', Num rsi_comp_long),
                (''rsi_component_short'', Num rsi_comp_short)]
         in (side, score_state))"

text \<open>A snapshot with a single MACD delta observation.\<close>

definition no_data_snapshot :: IndicatorSnapshot where
  "no_data_snapshot =
     \<lparr>close = Fin 2000, fast_ema = Fin 2000, slow_ema = Fin 2000, macd_delta = Fin 0,
      macd_slope = NaN, bb_width = NaN, rsi = Fin 50, atr = NaN, atr_percent = NaN,
      bb_upper = NaN, bb_lower = NaN, vol_ma = NaN, volume = Fin 1200, macd_line = Fin 0,
      macd_signal = Fin 0, delta_series = [Fin 0], bb_width_series = [NaN],
      rsi_series = [Fin 50]\<rparr>"

section \<open>Position sizing, trailing stop and trade plan\<close>

text \<open>
  \<^verbatim>\<open>determine_position_size\<close>, in the arithmetic of the code and on floats that may
  be NaN or infinite. The balance check comes first; the product with the int
  \<^verbatim>\<open>leverage\<close> converts it to a float; the division raises \<^verbatim>\<open>ZeroDivisionError\<close>
  when \<^verbatim>\<open>entry_price * multiplier\<close> is 0; \<^verbatim>\<open>math.floor\<close> raises on a quotient that
  is NaN or infinite.
\<close>

definition determine_position_size :: "f64 \<Rightarrow> f64 \<Rightarrow> f64 \<Rightarrow> int \<Rightarrow> f64 \<Rightarrow> py_error + int" where
  "determine_position_size balance_usdt entry_price position_percent leverage multiplier =
     (if f64_le balance_usdt (Fin 0) then Inl ValueError
      else let margin_used = float_mul balance_usdt (float_div position_percent (Fin 100))
           in case int_to_float Binary64 leverage of
                Inl err \<Rightarrow> Inl err
              | Inr lev \<Rightarrow>
                  (let position_value = float_mul margin_used (Fin lev);
                       divisor = float_mul entry_price multiplier
                   in if f64_eq divisor (Fin 0) then Inl ZeroDivisionError
                      else case math_floor (float_div position_value divisor) of
                             Inl err \<Rightarrow> Inl err
                           | Inr size_contracts \<Rightarrow> Inr (max size_contracts 1)))"

text \<open>
  \<^verbatim>\<open>compute_trailing_stop\<close>: \<^verbatim>\<open>current_stop_price\<close> is \<^verbatim>\<open>Optional[float]\<close>, and both
  calls of \<^verbatim>\<open>pct_to_price\<close> use the default leverage.
\<close>

definition compute_trailing_stop ::
  "arith \<Rightarrow> string \<Rightarrow> real \<Rightarrow> real \<Rightarrow> TrailingStopConfig \<Rightarrow> real option \<Rightarrow> py_error + real" where
  "compute_trailing_stop ar side entry_price peak_roi config current_stop_price =
     (case pct_to_price ar side entry_price (- stop_loss_roi config) LEVERAGE of
        Inl err \<Rightarrow> Inl err
      | Inr stop_price \<Rightarrow>
          (case (if peak_roi \<ge> start_roi config
                 then (let target_roi = max 0 (peak_roi - step_roi config)
                       in case pct_to_price ar side entry_price target_roi LEVERAGE of
                            Inl err \<Rightarrow> Inl err
                          | Inr trailing_price \<Rightarrow>
                              Inr (if side = ''long'' then max stop_price trailing_price
                                   else min stop_price trailing_price))
                 else Inr stop_price) of
             Inl err \<Rightarrow> Inl err
           | Inr stop_price' \<Rightarrow>
               Inr (case current_stop_price of
                      None \<Rightarrow> stop_price'
                    | Some current \<Rightarrow>
                        if side = ''long'' then max stop_price' current
                        else min stop_price' current)))"

text \<open>\<^verbatim>\<open>int(x)\<close> on a float truncates towards zero.\<close>

definition py_int :: "real \<Rightarrow> int" where
  "py_int x = (if x \<ge> 0 then \<lfloor>x\<rfloor> else \<lceil>x\<rceil>)"

text \<open>
  \<^verbatim>\<open>build_trade_plan\<close>, in the arithmetic of the code: the clock \<^verbatim>\<open>time.time()\<close> is
  the parameter \<open>now\<close>; the parameter \<^verbatim>\<open>indicators\<close> is never read by the source.
\<close>

definition build_trade_plan ::
  "string \<Rightarrow> real \<Rightarrow> 'ind \<Rightarrow> StrategyInputs \<Rightarrow> TrailingStopConfig \<Rightarrow> real \<Rightarrow> real \<Rightarrow> real
     \<Rightarrow> py_error + TradePlan" where
  "build_trade_plan side entry_price indicators inputs trailing balance_usdt position_percent now =
     (let peak_roi = 0 in
      case pct_to_price Binary64 side entry_price (- stop_loss_roi trailing) LEVERAGE of
        Inl err \<Rightarrow> Inl err
      | Inr stop_loss_price \<Rightarrow>
      (case compute_trailing_stop Binary64 side entry_price peak_roi trailing
              (Some stop_loss_price) of
        Inl err \<Rightarrow> Inl err
      | Inr trailing_stop_price \<Rightarrow>
      (case pct_to_price Binary64 side entry_price (min_profit_roi inputs) LEVERAGE of
        Inl err \<Rightarrow> Inl err
      | Inr take_profit_price \<Rightarrow>
      (case determine_position_size (Fin balance_usdt) (Fin entry_price) (Fin position_percent)
              LEVERAGE (Fin CONTRACT_MULTIPLIER) of
        Inl err \<Rightarrow> Inl err
      | Inr size_contracts \<Rightarrow>
          Inr \<lparr>plan_side = side, plan_entry_price = entry_price,
               plan_stop_loss_price = stop_loss_price,
               plan_trailing_stop_price = trailing_stop_price,
               plan_take_profit_price = take_profit_price,
               plan_size = size_contracts, plan_peak_roi = peak_roi,
               plan_timestamp_ms = py_int (binary64 (now * 1000))\<rparr>))))"

text \<open>
  The defaults of the two configuration dataclasses: \<^verbatim>\<open>TrailingStopConfig()\<close>, and
  \<^verbatim>\<open>StrategyInputs()\<close> with \<^verbatim>\<open>KUCOIN_MIN_PROFIT_ROI\<close> unset.
\<close>

definition default_trailing :: TrailingStopConfig where
  "default_trailing = \<lparr>start_roi = 10, step_roi = 8, stop_loss_roi = 9\<rparr>"

definition default_inputs :: StrategyInputs where
  "default_inputs =
     \<lparr>fast_length = 9, slow_length = 23, signal_length = 5, macd_delta_min = 1 / 100,
      bb_min_expansion = 1 / 2, bars_to_kill = 30, atr_trail_mult = 3 / 2, min_profit_roi = 1,
      normalization_lookback = 200, weight_macd = 45 / 100, weight_bb = 35 / 100,
      weight_rsi = 20 / 100, strength_threshold = ''Medium'', use_trend_filter = True,
      use_volume_filter = False, volume_ma_length = 50\<rparr>"

section \<open>Facts about the rounding to a double\<close>

text \<open>
  Rounding to the nearest integer and to the nearest double is monotone, odd and the
  identity on the values it can return.
\<close>

lemma rne_of_int: "rne (of_int n) = n"
  by (simp add: rne_def)

lemma rne_lower: "\<lfloor>x\<rfloor> \<le> rne x"
  by (simp add: rne_def Let_def)

lemma rne_upper: "rne x \<le> \<lfloor>x\<rfloor> + 1"
  by (simp add: rne_def Let_def)

lemma rne_mono:
  assumes "x \<le> y"
  shows "rne x \<le> rne y"
proof (cases "\<lfloor>x\<rfloor> = \<lfloor>y\<rfloor>")
  case True
  with assms show ?thesis by (auto simp add: rne_def Let_def)
next
  case False
  with assms have "\<lfloor>x\<rfloor> < \<lfloor>y\<rfloor>" by (simp add: floor_mono order.not_eq_order_implies_strict)
  then have "\<lfloor>x\<rfloor> + 1 \<le> \<lfloor>y\<rfloor>" by simp
  with rne_upper [of x] rne_lower [of y] show ?thesis by linarith
qed

lemma rne_error: "\<bar>of_int (rne x) - x\<bar> \<le> 1 / 2"
proof -
  have "of_int \<lfloor>x\<rfloor> \<le> x" "x < of_int \<lfloor>x\<rfloor> + 1" by linarith+
  then show ?thesis by (auto simp add: rne_def Let_def)
qed

lemma rne_minus: "rne (- x) = - rne x"
proof (cases "x = of_int \<lfloor>x\<rfloor>")
  case True
  then obtain n where "x = of_int n" ..
  then have "- x = of_int (- n)" by simp
  with \<open>x = of_int n\<close> show ?thesis by (simp only: rne_of_int)
next
  case False
  then have bounds: "of_int \<lfloor>x\<rfloor> < x" "x < of_int \<lfloor>x\<rfloor> + 1" by linarith+
  have "of_int (- \<lfloor>x\<rfloor> - 1) \<le> - x" and "- x < of_int (- \<lfloor>x\<rfloor> - 1) + 1"
    using bounds by linarith+
  then have fl: "\<lfloor>- x\<rfloor> = - \<lfloor>x\<rfloor> - 1"
    by (rule floor_unique)
  from bounds show ?thesis unfolding rne_def Let_def fl by auto
qed

lemma floor_log2_iff:
  assumes "0 < x"
  shows "\<lfloor>log 2 x\<rfloor> = k \<longleftrightarrow> 2 powi k \<le> x \<and> x < 2 powi (k + 1)"
  using floor_log_eq_powr_iff [of x 2 k] assms
    powr_real_of_int' [of 2 k] powr_real_of_int' [of 2 "k + 1"]
  by simp

lemma expo_eq:
  assumes "2 powi k \<le> \<bar>x\<bar>" and "\<bar>x\<bar> < 2 powi (k + 1)" and "- 1022 \<le> k"
  shows "expo x = k"
proof -
  have pos: "0 < \<bar>x\<bar>" using assms(1) zero_less_power_int [of "2::real" k] by linarith
  have "\<lfloor>log 2 \<bar>x\<bar>\<rfloor> = k"
    using assms(1,2) pos by (simp add: floor_log2_iff)
  with assms(3) show ?thesis by (simp add: expo_def)
qed

lemma expo_subnormal:
  assumes "\<bar>x\<bar> < 2 powi (- 1022)" and "x \<noteq> 0"
  shows "expo x = - 1022"
proof -
  let ?k = "\<lfloor>log 2 \<bar>x\<bar>\<rfloor>"
  have pos: "0 < \<bar>x\<bar>" using assms(2) by simp
  have "2 powi ?k \<le> \<bar>x\<bar>"
    using pos floor_log2_iff [of "\<bar>x\<bar>" ?k] by simp
  with assms(1) have "(2::real) powi ?k < 2 powi (- 1022)" by linarith
  then have "?k < - 1022"
    using power_int_increasing [of "- 1022" ?k "2::real"] by linarith
  then show ?thesis by (simp add: expo_def)
qed

lemma expo_upper:
  assumes "x \<noteq> 0"
  shows "\<bar>x\<bar> < 2 powi (expo x + 1)"
proof -
  let ?k = "\<lfloor>log 2 \<bar>x\<bar>\<rfloor>"
  have pos: "0 < \<bar>x\<bar>" using assms by simp
  have "\<bar>x\<bar> < 2 powi (?k + 1)"
    using pos floor_log2_iff [of "\<bar>x\<bar>" ?k] by simp
  also have "(2::real) powi (?k + 1) \<le> 2 powi (expo x + 1)"
    by (rule power_int_increasing) (simp_all add: expo_def)
  finally show ?thesis .
qed

lemma expo_lower:
  assumes "x \<noteq> 0" and "expo x \<noteq> - 1022"
  shows "2 powi (expo x) \<le> \<bar>x\<bar>"
proof -
  let ?k = "\<lfloor>log 2 \<bar>x\<bar>\<rfloor>"
  from assms(2) have k: "expo x = ?k"
    by (auto simp add: expo_def max_def split: if_splits)
  have pos: "0 < \<bar>x\<bar>" using assms(1) by simp
  have "2 powi ?k \<le> \<bar>x\<bar>"
    using pos floor_log2_iff [of "\<bar>x\<bar>" ?k] by simp
  with k show ?thesis by simp
qed

lemma expo_ge: "- 1022 \<le> expo x"
  by (simp add: expo_def)

lemma expo_minus: "expo (- x) = expo x"
  by (simp add: expo_def)

lemma ulp_pos: "0 < ulp x"
  by (simp add: ulp_def zero_less_power_int)

lemma ulp_minus: "ulp (- x) = ulp x"
  by (simp add: ulp_def expo_minus)

lemma binary64_0: "binary64 0 = 0"
  by (simp add: binary64_def rne_def)

lemma binary64_minus: "binary64 (- x) = - binary64 x"
  by (simp add: binary64_def ulp_minus rne_minus)

lemma binary64_eval:
  assumes "2 powi k \<le> \<bar>x\<bar>" and "\<bar>x\<bar> < 2 powi (k + 1)" and "- 1022 \<le> k"
  shows "binary64 x = of_int (rne (x / 2 powi (k - 52))) * 2 powi (k - 52)"
  by (simp add: binary64_def ulp_def expo_eq [OF assms])

lemma expo_mono:
  assumes "0 < x" and "x \<le> y"
  shows "expo x \<le> expo y"
proof -
  have "log 2 \<bar>x\<bar> \<le> log 2 \<bar>y\<bar>" using assms by simp
  then have "\<lfloor>log 2 \<bar>x\<bar>\<rfloor> \<le> \<lfloor>log 2 \<bar>y\<bar>\<rfloor>" by (rule floor_mono)
  then show ?thesis by (simp add: expo_def)
qed

lemma powi_split53: "(2::real) powi (e + 1) = 2 powi 53 * 2 powi (e - 52)"
  by (subst power_int_add [symmetric]) (simp_all add: add.commute)

lemma powi_split52: "(2::real) powi e = 2 powi 52 * 2 powi (e - 52)"
  by (subst power_int_add [symmetric]) simp_all

text \<open>The rounded value of a positive number stays within its binade.\<close>

lemma binary64_pos_upper:
  assumes "0 < x"
  shows "binary64 x \<le> 2 powi (expo x + 1)"
proof -
  have "x / ulp x \<le> 2 powi 53"
  proof -
    have "x < 2 powi (expo x + 1)" using expo_upper [of x] assms by simp
    also have "(2::real) powi (expo x + 1) = 2 powi 53 * ulp x"
      unfolding ulp_def by (rule powi_split53)
    finally show ?thesis using ulp_pos [of x] by (simp add: pos_divide_le_eq)
  qed
  then have "rne (x / ulp x) \<le> rne (2 powi 53)" by (rule rne_mono)
  also have "rne (2 powi 53 :: real) = 2 ^ 53"
    using rne_of_int [of "2 ^ 53"] by simp
  finally have "of_int (rne (x / ulp x)) \<le> (2 powi 53 :: real)"
    by (metis of_int_le_iff of_int_numeral of_int_power power_int_numeral)
  then have "binary64 x \<le> 2 powi 53 * ulp x"
    using ulp_pos [of x] by (simp add: binary64_def)
  also have "2 powi 53 * ulp x = (2::real) powi (expo x + 1)"
    unfolding ulp_def by (rule powi_split53 [symmetric])
  finally show ?thesis .
qed

lemma binary64_pos_lower:
  assumes "0 < x" and "expo x \<noteq> - 1022"
  shows "2 powi (expo x) \<le> binary64 x"
proof -
  have "2 powi 52 \<le> x / ulp x"
  proof -
    have "(2::real) powi 52 * ulp x = 2 powi (expo x)"
      unfolding ulp_def by (rule powi_split52 [symmetric])
    also have "\<dots> \<le> x" using expo_lower [of x] assms by simp
    finally show ?thesis using ulp_pos [of x] by (simp add: pos_le_divide_eq)
  qed
  then have "rne (2 powi 52) \<le> rne (x / ulp x)" by (rule rne_mono)
  moreover have "rne (2 powi 52 :: real) = 2 ^ 52"
    using rne_of_int [of "2 ^ 52"] by simp
  ultimately have "(2 powi 52 :: real) \<le> of_int (rne (x / ulp x))"
    by (metis of_int_le_iff of_int_numeral of_int_power power_int_numeral)
  then have "2 powi 52 * ulp x \<le> binary64 x"
    using ulp_pos [of x] by (simp add: binary64_def)
  moreover have "2 powi 52 * ulp x = (2::real) powi (expo x)"
    unfolding ulp_def by (rule powi_split52 [symmetric])
  ultimately show ?thesis by simp
qed

lemma binary64_nonneg: "0 \<le> x \<Longrightarrow> 0 \<le> binary64 x"
proof -
  assume "0 \<le> x"
  then have "0 \<le> x / ulp x" using ulp_pos [of x] by simp
  then have "rne 0 \<le> rne (x / ulp x)" by (rule rne_mono)
  then have "0 \<le> rne (x / ulp x)" using rne_of_int [of 0] by simp
  then show ?thesis using ulp_pos [of x] by (simp add: binary64_def)
qed

lemma binary64_mono_pos:
  assumes "0 < x" and "x \<le> y"
  shows "binary64 x \<le> binary64 y"
proof (cases "expo x = expo y")
  case True
  then have u: "ulp x = ulp y" by (simp add: ulp_def)
  have "x / ulp y \<le> y / ulp y" using assms ulp_pos [of y] by (simp add: divide_right_mono)
  then have "rne (x / ulp y) \<le> rne (y / ulp y)" by (rule rne_mono)
  then show ?thesis using ulp_pos [of y] by (simp add: binary64_def u)
next
  case False
  with expo_mono [OF assms] have less: "expo x < expo y" by simp
  then have ne: "expo y \<noteq> - 1022" using expo_ge [of x] by linarith
  have "binary64 x \<le> 2 powi (expo x + 1)" by (rule binary64_pos_upper [OF assms(1)])
  also have "(2::real) powi (expo x + 1) \<le> 2 powi (expo y)"
    by (rule power_int_increasing) (use less in simp_all)
  also have "\<dots> \<le> binary64 y"
    by (rule binary64_pos_lower) (use assms ne in simp_all)
  finally show ?thesis .
qed

lemma binary64_mono:
  assumes "x \<le> y"
  shows "binary64 x \<le> binary64 y"
proof -
  consider "0 < x" | "x \<le> 0" "0 \<le> y" | "y < 0" by linarith
  then show ?thesis
  proof cases
    case 1
    then show ?thesis using assms by (rule binary64_mono_pos)
  next
    case 2
    have "binary64 x = - binary64 (- x)" by (simp add: binary64_minus)
    moreover have "0 \<le> binary64 (- x)" using 2(1) by (simp add: binary64_nonneg)
    moreover have "0 \<le> binary64 y" using 2(2) by (rule binary64_nonneg)
    ultimately show ?thesis by linarith
  next
    case 3
    then have "0 < - y" "- y \<le> - x" using assms by simp_all
    then have "binary64 (- y) \<le> binary64 (- x)" by (rule binary64_mono_pos)
    then show ?thesis by (simp add: binary64_minus)
  qed
qed

lemma binary64_1: "binary64 1 = 1"
  using binary64_eval [of 0 1] by (simp add: rne_def power_int_minus)

lemma binary64_of_integral:
  assumes "x / ulp x = of_int z"
  shows "binary64 x = x"
proof -
  have "binary64 x = of_int (rne (of_int z)) * ulp x"
    by (simp only: binary64_def assms)
  also have "\<dots> = x / ulp x * ulp x"
    by (simp only: rne_of_int assms)
  also have "\<dots> = x" using ulp_pos [of x] by simp
  finally show ?thesis .
qed

lemma binary64_representable:
  assumes n: "\<bar>n\<bar> \<le> 2 ^ 53" and j: "- 1074 \<le> j"
  shows "binary64 (of_int n * 2 powi j) = of_int n * 2 powi j"
proof (cases "n = 0")
  case True
  then show ?thesis by (simp add: binary64_0)
next
  case False
  let ?x = "of_int n * 2 powi j :: real"
  let ?k = "expo ?x"
  have x0: "?x \<noteq> 0" using False by simp
  have absx: "\<bar>?x\<bar> = of_int \<bar>n\<bar> * 2 powi j"
    by (simp add: abs_mult)
  have le53: "\<bar>?x\<bar> \<le> 2 powi (j + 53)"
  proof -
    have "of_int \<bar>n\<bar> \<le> (2 ^ 53 :: real)"
      using n by (metis of_int_le_iff of_int_numeral of_int_power)
    then have "of_int \<bar>n\<bar> * 2 powi j \<le> (2 ^ 53 :: real) * 2 powi j"
      by (intro mult_right_mono) simp_all
    also have "(2 ^ 53 :: real) * 2 powi j = 2 powi (j + 53)"
      by (subst power_int_add) simp_all
    finally show ?thesis by (simp only: absx)
  qed
  have quot: "?x / ulp ?x = of_int n * 2 powi (j - (?k - 52))"
    unfolding ulp_def by (subst power_int_diff) simp_all
  consider "0 \<le> j - (?k - 52)" | "j - (?k - 52) < 0" by linarith
  then have "\<exists>z. ?x / ulp ?x = of_int z"
  proof cases
    case 1
    then have "(2::real) powi (j - (?k - 52)) = of_int (2 ^ nat (j - (?k - 52)))"
      by (simp add: power_int_def)
    then have "?x / ulp ?x = of_int (n * 2 ^ nat (j - (?k - 52)))"
      by (simp only: quot of_int_mult)
    then show ?thesis ..
  next
    case 2
    then have big: "j + 53 \<le> ?k" by linarith
    then have ne: "?k \<noteq> - 1022" using j by linarith
    have "2 powi ?k \<le> \<bar>?x\<bar>" by (rule expo_lower [OF x0 ne])
    with le53 have "(2::real) powi ?k \<le> 2 powi (j + 53)" by linarith
    then have "?k \<le> j + 53"
      using power_int_strict_increasing [of "j + 53" ?k "2::real"] by linarith
    with big have k: "?k = j + 53" by linarith
    have "(2::real) powi (j + 53) \<le> of_int \<bar>n\<bar> * 2 powi j"
      using \<open>2 powi ?k \<le> \<bar>?x\<bar>\<close> unfolding k absx .
    moreover have "(2::real) powi (j + 53) = 2 ^ 53 * 2 powi j"
      by (subst power_int_add) simp_all
    ultimately have "(2 ^ 53 :: real) * 2 powi j \<le> of_int \<bar>n\<bar> * 2 powi j" by simp
    then have "(2 ^ 53 :: real) \<le> of_int \<bar>n\<bar>"
      by (simp add: zero_less_power_int)
    then have "2 ^ 53 \<le> \<bar>n\<bar>"
      by (metis of_int_le_iff of_int_numeral of_int_power)
    with n have "\<bar>n\<bar> = 2 ^ 53" by linarith
    then have "even \<bar>n\<bar>" by simp
    then have "even n" by simp
    then obtain h where h: "n = 2 * h" by (elim evenE)
    have "j - (?k - 52) = - 1" using k by simp
    then have "?x / ulp ?x = of_int n * 2 powi (- 1)" by (simp only: quot)
    also have "\<dots> = of_int h" by (simp add: h)
    finally show ?thesis ..
  qed
  then obtain z where "?x / ulp ?x = of_int z" ..
  then show ?thesis by (rule binary64_of_integral)
qed

lemma double_mantissa:
  assumes e: "binary64 e = e" and pos: "0 < e"
  obtains m where "e = of_int m * ulp e" and "0 < m" and "m < 2 ^ 53"
proof -
  let ?m = "rne (e / ulp e)"
  have eq: "e = of_int ?m * ulp e" using e by (simp add: binary64_def)
  have "0 < of_int ?m * ulp e" using eq pos by simp
  then have m0: "0 < ?m" using ulp_pos [of e] by (simp add: zero_less_mult_iff)
  have "e < 2 powi (expo e + 1)" using expo_upper [of e] pos by simp
  also have "\<dots> = 2 powi 53 * ulp e" unfolding ulp_def by (rule powi_split53)
  finally have "of_int ?m * ulp e < 2 powi 53 * ulp e" using eq by simp
  then have "of_int ?m < (2 powi 53 :: real)" using ulp_pos [of e] by simp
  then have "?m < 2 ^ 53"
    by (metis of_int_less_iff of_int_numeral of_int_power power_int_numeral)
  with eq m0 show ?thesis by (rule that)
qed

lemma ulp_le_scaled:
  assumes "2 powi (- 1022) \<le> e"
  shows "ulp e \<le> e * 2 powi (- 52)"
proof -
  have pos: "0 < e" using assms zero_less_power_int [of "2::real" "- 1022"] by linarith
  have low: "2 powi (expo e) \<le> e"
  proof (cases "expo e = - 1022")
    case True
    with assms show ?thesis by simp
  next
    case False
    with expo_lower [of e] pos show ?thesis by simp
  qed
  have "ulp e = 2 powi (expo e) * 2 powi (- 52)"
    unfolding ulp_def by (subst power_int_add [symmetric]) simp_all
  also have "\<dots> \<le> e * 2 powi (- 52)"
    using low by (intro mult_right_mono) simp_all
  finally show ?thesis .
qed

lemma binary64_succ:
  assumes e: "binary64 e = e" and pos: "0 < e"
  shows "binary64 (e + ulp e) = e + ulp e"
proof -
  from e pos obtain m where m: "e = of_int m * ulp e" "0 < m" "m < 2 ^ 53"
    by (rule double_mantissa)
  have "e + ulp e = of_int (m + 1) * 2 powi (expo e - 52)"
    using m(1) by (simp add: ulp_def algebra_simps)
  moreover have "binary64 (of_int (m + 1) * 2 powi (expo e - 52))
      = of_int (m + 1) * 2 powi (expo e - 52)"
    by (rule binary64_representable) (use m expo_ge [of e] in simp_all)
  ultimately show ?thesis by simp
qed

lemma binary64_pred:
  assumes e: "binary64 e = e" and pos: "0 < e"
  shows "binary64 (e - ulp e) = e - ulp e"
proof -
  from e pos obtain m where m: "e = of_int m * ulp e" "0 < m" "m < 2 ^ 53"
    by (rule double_mantissa)
  have "e - ulp e = of_int (m - 1) * 2 powi (expo e - 52)"
    using m(1) by (simp add: ulp_def algebra_simps)
  moreover have "binary64 (of_int (m - 1) * 2 powi (expo e - 52))
      = of_int (m - 1) * 2 powi (expo e - 52)"
    by (rule binary64_representable) (use m expo_ge [of e] in simp_all)
  ultimately show ?thesis by simp
qed

lemma binary64_mult_above:
  assumes e: "binary64 e = e" and normal: "2 powi (- 1022) \<le> e"
    and c: "1 + 2 powi (- 52) \<le> c"
  shows "e < binary64 (e * c)"
proof -
  have pos: "0 < e" using normal zero_less_power_int [of "2::real" "- 1022"] by linarith
  have "e + ulp e \<le> e + e * 2 powi (- 52)" using ulp_le_scaled [OF normal] by simp
  also have "\<dots> = e * (1 + 2 powi (- 52))" by (simp add: algebra_simps)
  also have "\<dots> \<le> e * c" using c pos by (intro mult_left_mono) simp_all
  finally have "binary64 (e + ulp e) \<le> binary64 (e * c)" by (rule binary64_mono)
  then show ?thesis using binary64_succ [OF e pos] ulp_pos [of e] by linarith
qed

lemma binary64_mult_below:
  assumes e: "binary64 e = e" and normal: "2 powi (- 1022) \<le> e"
    and c: "c \<le> 1 - 2 powi (- 52)"
  shows "binary64 (e * c) < e"
proof -
  have pos: "0 < e" using normal zero_less_power_int [of "2::real" "- 1022"] by linarith
  have "e * c \<le> e * (1 - 2 powi (- 52))" using c pos by (intro mult_left_mono) simp_all
  also have "\<dots> = e - e * 2 powi (- 52)" by (simp add: algebra_simps)
  also have "\<dots> \<le> e - ulp e" using ulp_le_scaled [OF normal] by simp
  finally have "binary64 (e * c) \<le> binary64 (e - ulp e)" by (rule binary64_mono)
  then show ?thesis using binary64_pred [OF e pos] ulp_pos [of e] by linarith
qed


lemma fl_0: "fl ar 0 = 0"
  by (cases ar) (simp_all add: binary64_0)

lemma fl_1: "fl ar 1 = 1"
  by (cases ar) (simp_all add: binary64_1)

lemma binary64_100: "binary64 100 = 100"
  using binary64_eval [of 6 100] by (simp add: rne_def)

lemma binary64_2000: "binary64 2000 = 2000"
  using binary64_eval [of 10 2000] by (simp add: rne_def)

lemma int_to_float_LEVERAGE: "int_to_float ar LEVERAGE = Inr 100"
  by (cases ar) (simp_all add: LEVERAGE_def binary64_100)

lemma int_to_float_0: "int_to_float ar 0 = Inr 0"
  by (cases ar) (simp_all add: binary64_0)

section \<open>The trailing stop\<close>

lemma pct_to_price_default:
  "pct_to_price ar side e r LEVERAGE =
     Inr (if side = ''long'' then fl ar (e * fl ar (1 + fl ar (fl ar (r / 100) / 100)))
          else fl ar (e * fl ar (1 - fl ar (fl ar (r / 100) / 100))))"
  by (simp add: pct_to_price_def int_to_float_LEVERAGE)

lemma compute_trailing_stop_eq:
  "compute_trailing_stop ar side e peak cfg cur =
     Inr (let cap = (if side = ''long''
                     then fl ar (e * fl ar (1 + fl ar (fl ar (- stop_loss_roi cfg / 100) / 100)))
                     else fl ar (e * fl ar (1 - fl ar (fl ar (- stop_loss_roi cfg / 100) / 100))));
              lvl = (if side = ''long''
                     then fl ar (e * fl ar (1 + fl ar (fl ar (max 0 (peak - step_roi cfg) / 100) / 100)))
                     else fl ar (e * fl ar (1 - fl ar (fl ar (max 0 (peak - step_roi cfg) / 100) / 100))));
              cand = (if start_roi cfg \<le> peak
                      then (if side = ''long'' then max cap lvl else min cap lvl) else cap)
          in case cur of None \<Rightarrow> cand
             | Some c \<Rightarrow> if side = ''long'' then max cand c else min cand c)"
  by (simp add: compute_trailing_stop_def pct_to_price_default Let_def)



text \<open>
  C2, the ratchet. Whenever a previous stop is supplied, \<^verbatim>\<open>compute_trailing_stop\<close>
  returns a stop that is at least the previous one for a long position and at most the
  previous one for a short position, whatever the entry price, the peak ROI, the
  configuration and the arithmetic.
\<close>

theorem trailing_stop_ratchet:
  "\<exists>v. compute_trailing_stop ar side e peak cfg (Some prev) = Inr v \<and>
     (side = ''long'' \<longrightarrow> prev \<le> v) \<and> (side = ''short'' \<longrightarrow> v \<le> prev)"
  by (simp add: compute_trailing_stop_eq Let_def)

theorem trailing_stop_ratchet_witness:
  "(\<exists>v. compute_trailing_stop Binary64 ''long'' 2000 5 default_trailing (Some 2001) = Inr v
      \<and> 2001 \<le> v) \<and>
   (\<exists>v. compute_trailing_stop Binary64 ''short'' 2000 5 default_trailing (Some 1999) = Inr v
      \<and> v \<le> 1999)"
  using trailing_stop_ratchet [of Binary64 "''long''" 2000 5 default_trailing 2001]
    trailing_stop_ratchet [of Binary64 "''short''" 2000 5 default_trailing 1999]
  by simp

text \<open>
  C10. The side is never validated: for every side string other than \<^verbatim>\<open>"long"\<close>,
  \<^verbatim>\<open>pct_to_price\<close>, \<^verbatim>\<open>price_to_roi\<close> and \<^verbatim>\<open>compute_trailing_stop\<close> return what they
  return for \<^verbatim>\<open>"short"\<close> on the same arguments (an exception of the short side, for a
  leverage of 0 or an entry price that is not positive, included), and
  \<^verbatim>\<open>compute_trailing_stop\<close> raises nothing at all.
\<close>

theorem side_not_validated:
  assumes "side \<noteq> ''long''"
  shows "pct_to_price ar side e r l = pct_to_price ar ''short'' e r l \<and>
         price_to_roi ar side e p l = price_to_roi ar ''short'' e p l \<and>
         compute_trailing_stop ar side e peak cfg cur
           = compute_trailing_stop ar ''short'' e peak cfg cur \<and>
         (\<exists>v. compute_trailing_stop ar side e peak cfg cur = Inr v)"
  using assms
  by (simp add: pct_to_price_def price_to_roi_def compute_trailing_stop_eq Let_def
        split: option.split sum.split)

theorem side_not_validated_witness:
  "pct_to_price Binary64 ''none'' 2000 5 100 = pct_to_price Binary64 ''short'' 2000 5 100 \<and>
   price_to_roi Binary64 ''none'' 2000 1999 100 = price_to_roi Binary64 ''short'' 2000 1999 100 \<and>
   compute_trailing_stop Binary64 ''none'' 2000 26 default_trailing (Some 2001)
     = compute_trailing_stop Binary64 ''short'' 2000 26 default_trailing (Some 2001) \<and>
   (\<exists>v. compute_trailing_stop Binary64 ''none'' 2000 26 default_trailing (Some 2001) = Inr v)"
  by (rule side_not_validated) simp

section \<open>ROI and price conversion\<close>

lemma roundtrip_binary64_example:
  "pct_to_price Binary64 ''long'' 2000 18 100 = Inr (8811925989647975 / 4398046511104) \<and>
   price_to_roi Binary64 ''long'' 2000 (8811925989647975 / 4398046511104) 100
     = Inr (79164837199875 / 4398046511104)"
proof -
  have s1: "binary64 (9 / 50) = 3242591731706757 / 18014398509481984"
    using binary64_eval [of "- 3" "9 / 50"] by (simp add: rne_def)
  have s2: "binary64 (3242591731706757 / 1801439850948198400) = 4150517416584649 / 2305843009213693952"
    using binary64_eval [of "- 10" "3242591731706757 / 1801439850948198400"] by (simp add: rne_def)
  have s3: "binary64 (2309993526630278601 / 2305843009213693952) = 4511706106699763 / 4503599627370496"
    using binary64_eval [of 0 "2309993526630278601 / 2305843009213693952"] by (simp add: rne_def)
  have s4: "binary64 (563963263337470375 / 281474976710656) = 8811925989647975 / 4398046511104"
    using binary64_eval [of 10 "563963263337470375 / 281474976710656"] by (simp add: rne_def)
  have s5: "binary64 (15832967439975 / 4398046511104) = 15832967439975 / 4398046511104"
    using binary64_eval [of 1 "15832967439975 / 4398046511104"] by (simp add: rne_def)
  have s6: "binary64 (633318697599 / 351843720888320) = 8301034833169613 / 4611686018427387904"
    using binary64_eval [of "- 10" "633318697599 / 351843720888320"] by (simp add: rne_def)
  have s7: "binary64 (207525870829240325 / 1152921504606846976) = 3166593487995 / 17592186044416"
    using binary64_eval [of "- 3" "207525870829240325 / 1152921504606846976"] by (simp add: rne_def)
  have s8: "binary64 (79164837199875 / 4398046511104) = 79164837199875 / 4398046511104"
    using binary64_eval [of 4 "79164837199875 / 4398046511104"] by (simp add: rne_def)
  have price: "pct_to_price Binary64 ''long'' 2000 18 100
      = Inr (8811925989647975 / 4398046511104)"
    by (simp add: pct_to_price_def binary64_100 s1 s2 s3 s4)
  have roi: "price_to_roi Binary64 ''long'' 2000 (8811925989647975 / 4398046511104) 100
      = Inr (79164837199875 / 4398046511104)"
    by (simp add: price_to_roi_def binary64_100 s5 s6 s7 s8)
  from price roi show ?thesis ..
qed

text \<open>
  One rounding moves a real by at most the relative error \<open>2\<^sup>-\<^sup>5\<^sup>3\<close> and, below the
  normal range, by at most the absolute error \<open>2\<^sup>-\<^sup>1\<^sup>0\<^sup>7\<^sup>5\<close>. The round trip is eight
  roundings; its error is followed through them one by one.
\<close>

lemma binary64_diff: "binary64 x - x = (of_int (rne (x / ulp x)) - x / ulp x) * ulp x"
  using ulp_pos [of x] by (simp add: binary64_def field_simps)

lemma binary64_error_ulp: "\<bar>binary64 x - x\<bar> \<le> ulp x / 2"
proof -
  have "\<bar>binary64 x - x\<bar> = \<bar>of_int (rne (x / ulp x)) - x / ulp x\<bar> * ulp x"
    using ulp_pos [of x] by (simp add: binary64_diff abs_mult)
  also have "\<dots> \<le> 1 / 2 * ulp x"
    using rne_error [of "x / ulp x"] ulp_pos [of x] by (intro mult_right_mono) simp_all
  finally show ?thesis by simp
qed

lemma ulp_abs: "ulp \<bar>x\<bar> = ulp x"
  by (simp add: ulp_def expo_def)

lemma powi_1075: "(2::real) powi (- 1074) = 2 * 2 powi (- 1075)"
proof -
  have "(2::real) powi (- 1074) = 2 powi 1 * 2 powi (- 1075)"
    by (subst power_int_add [symmetric]) simp_all
  then show ?thesis by simp
qed

lemma powi_52_53: "(2::real) powi (- 52) = 2 / 2 ^ 53"
  by (simp add: power_int_minus field_simps)

lemma binary64_error: "\<bar>binary64 x - x\<bar> \<le> \<bar>x\<bar> / 2 ^ 53 + 2 powi (- 1075)"
proof (cases "2 powi (- 1022) \<le> \<bar>x\<bar>")
  case True
  then have "ulp \<bar>x\<bar> \<le> \<bar>x\<bar> * 2 powi (- 52)" by (rule ulp_le_scaled)
  then have "ulp x / 2 \<le> \<bar>x\<bar> / 2 ^ 53" by (simp only: ulp_abs powi_52_53) simp
  moreover have "0 \<le> (2::real) powi (- 1075)" by simp
  ultimately show ?thesis using binary64_error_ulp [of x] by linarith
next
  case False
  show ?thesis
  proof (cases "x = 0")
    case True
    then show ?thesis by (simp add: binary64_0)
  next
    case nz: False
    with False have "expo x = - 1022" by (simp add: expo_subnormal)
    then have "ulp x = 2 powi (- 1074)" by (simp add: ulp_def)
    then have "ulp x / 2 = 2 powi (- 1075)" by (simp only: powi_1075)
    moreover have "0 \<le> \<bar>x\<bar> / 2 ^ 53" by simp
    ultimately show ?thesis using binary64_error_ulp [of x] by linarith
  qed
qed

lemma binary64_error_scaled:
  assumes "0 < e"
  shows "\<bar>binary64 (e * y) / e - y\<bar> \<le> \<bar>y\<bar> / 2 ^ 53 + 2 powi (- 1075) / e"
proof -
  have "binary64 (e * y) / e - y = (binary64 (e * y) - e * y) / e"
    using assms by (simp add: field_simps)
  then have "\<bar>binary64 (e * y) / e - y\<bar> = \<bar>binary64 (e * y) - e * y\<bar> / e"
    using assms by (simp add: abs_divide)
  also have "\<dots> \<le> (\<bar>e * y\<bar> / 2 ^ 53 + 2 powi (- 1075)) / e"
    using binary64_error [of "e * y"] assms by (intro divide_right_mono) simp_all
  also have "\<dots> = \<bar>y\<bar> / 2 ^ 53 + 2 powi (- 1075) / e"
    using assms by (simp add: abs_mult field_simps)
  finally show ?thesis .
qed

lemma tiny_over_normal:
  assumes "2 powi (- 1022) \<le> (e::real)"
  shows "2 powi (- 1075) / e \<le> 1 / 2 ^ 53"
proof -
  have pos: "0 < e" using assms zero_less_power_int [of "2::real" "- 1022"] by linarith
  have "(2::real) powi (- 1022) = 2 powi 53 * 2 powi (- 1075)"
    by (subst power_int_add [symmetric]) simp_all
  then have "2 ^ 53 * 2 powi (- 1075) \<le> e" using assms by simp
  then show ?thesis using pos by (simp add: field_simps)
qed

lemma tiny_small: "(2::real) powi (- 1075) \<le> 1 / 2 ^ 63"
proof -
  have "(2::real) powi (- 1075) \<le> 2 powi (- 63)"
    by (rule power_int_increasing) simp_all
  then show ?thesis by (simp add: power_int_minus field_simps)
qed

lemma error_step:
  fixes y z a0 B w :: real
  assumes "\<bar>z - a0\<bar> \<le> B" and "\<bar>y - z\<bar> \<le> \<bar>z\<bar> / 9007199254740992 + w"
  shows "\<bar>y - a0\<bar> \<le> B + (\<bar>a0\<bar> + B) / 9007199254740992 + w"
  using assms by argo

lemma roundtrip_core:
  fixes e r lev :: real
  assumes e: "2 powi (- 1022) \<le> e" and lev: "1 \<le> \<bar>lev\<bar>"
  shows "\<bar>binary64 (binary64 (binary64 (binary64
            (binary64 (e * binary64 (1 + binary64 (binary64 (r / lev) / 100))) - e) / e) * 100) * lev)
          - r\<bar> \<le> (\<bar>r\<bar> + 100 * \<bar>lev\<bar>) / 2 ^ 49"
proof -
  define h :: real where "h = 2 powi (- 1075)"
  define a0 where "a0 = r / lev"
  define a where "a = binary64 (r / lev)"
  define dl where "dl = binary64 (a / 100)"
  define s where "s = binary64 (1 + dl)"
  define p where "p = binary64 (e * s)"
  define d where "d = binary64 (p - e)"
  define q where "q = binary64 (d / e)"
  define c where "c = binary64 (q * 100)"
  define x where "x = binary64 (c * lev)"
  define g where "g = h / e"
  define P where "P = p / e"
  define D where "D = d / e"
  define A where "A = \<bar>a0\<bar>"
  have U: "(2::real) ^ 53 = 9007199254740992" by simp
  have epos: "0 < e" using e zero_less_power_int [of "2::real" "- 1022"] by linarith
  have levnz: "lev \<noteq> 0" using lev by auto
  have A0: "0 \<le> A" by (simp add: A_def)
  have h0: "0 \<le> h" by (simp add: h_def)
  have h1: "h \<le> 1 / 9223372036854775808" using tiny_small by (simp add: h_def)
  have g1: "g \<le> 1 / 9007199254740992" using tiny_over_normal [OF e] by (simp add: g_def h_def)
  have st1: "\<bar>a - a0\<bar> \<le> A / 9007199254740992 + h"
    using binary64_error [of "r / lev"] unfolding a_def a0_def h_def U A_def .
  have "\<bar>dl - a / 100\<bar> \<le> \<bar>a / 100\<bar> / 9007199254740992 + h"
    using binary64_error [of "a / 100"] unfolding dl_def h_def U .
  then have st2: "\<bar>100 * dl - a\<bar> \<le> \<bar>a\<bar> / 9007199254740992 + 100 * h" by argo
  have "\<bar>100 * dl - a0\<bar>
      \<le> (A / 9007199254740992 + h) + (\<bar>a0\<bar> + (A / 9007199254740992 + h)) / 9007199254740992
        + 100 * h"
    using st1 st2 by (rule error_step)
  then have B2: "\<bar>100 * dl - a0\<bar> \<le> 3 * A / 9007199254740992 + 102 * h"
    unfolding A_def [symmetric] using A0 h0 by argo
  have "\<bar>s - (1 + dl)\<bar> \<le> \<bar>1 + dl\<bar> / 9007199254740992 + h"
    using binary64_error [of "1 + dl"] unfolding s_def h_def U .
  then have st3: "\<bar>100 * (s - 1) - 100 * dl\<bar>
      \<le> \<bar>100 * dl\<bar> / 9007199254740992 + (100 / 9007199254740992 + 100 * h)" by argo
  have "\<bar>100 * (s - 1) - a0\<bar>
      \<le> (3 * A / 9007199254740992 + 102 * h)
        + (\<bar>a0\<bar> + (3 * A / 9007199254740992 + 102 * h)) / 9007199254740992
        + (100 / 9007199254740992 + 100 * h)"
    using B2 st3 by (rule error_step)
  then have B3: "\<bar>100 * (s - 1) - a0\<bar>
      \<le> 5 * A / 9007199254740992 + 100 / 9007199254740992 + 203 * h"
    unfolding A_def [symmetric] using A0 h0 by argo
  have "\<bar>P - s\<bar> \<le> \<bar>s\<bar> / 9007199254740992 + g"
    using binary64_error_scaled [OF epos, of s] unfolding p_def P_def g_def h_def U .
  then have st4: "\<bar>100 * (P - 1) - 100 * (s - 1)\<bar>
      \<le> \<bar>100 * (s - 1)\<bar> / 9007199254740992 + 200 / 9007199254740992"
    using g1 by argo
  have "\<bar>100 * (P - 1) - a0\<bar>
      \<le> (5 * A / 9007199254740992 + 100 / 9007199254740992 + 203 * h)
        + (\<bar>a0\<bar> + (5 * A / 9007199254740992 + 100 / 9007199254740992 + 203 * h))
            / 9007199254740992
        + 200 / 9007199254740992"
    using B3 st4 by (rule error_step)
  then have B4: "\<bar>100 * (P - 1) - a0\<bar>
      \<le> 7 * A / 9007199254740992 + 301 / 9007199254740992 + 204 * h"
    unfolding A_def [symmetric] using A0 h0 by argo
  have "\<bar>binary64 (e * (P - 1)) / e - (P - 1)\<bar>
      \<le> \<bar>P - 1\<bar> / 2 ^ 53 + 2 powi (- 1075) / e"
    using epos by (rule binary64_error_scaled)
  moreover have "e * (P - 1) = p - e" using epos by (simp add: P_def field_simps)
  ultimately have "\<bar>D - (P - 1)\<bar> \<le> \<bar>P - 1\<bar> / 9007199254740992 + g"
    unfolding d_def D_def g_def h_def U by simp
  then have st5: "\<bar>100 * D - 100 * (P - 1)\<bar>
      \<le> \<bar>100 * (P - 1)\<bar> / 9007199254740992 + 100 / 9007199254740992"
    using g1 by argo
  have "\<bar>100 * D - a0\<bar>
      \<le> (7 * A / 9007199254740992 + 301 / 9007199254740992 + 204 * h)
        + (\<bar>a0\<bar> + (7 * A / 9007199254740992 + 301 / 9007199254740992 + 204 * h))
            / 9007199254740992
        + 100 / 9007199254740992"
    using B4 st5 by (rule error_step)
  then have B5: "\<bar>100 * D - a0\<bar>
      \<le> 9 * A / 9007199254740992 + 402 / 9007199254740992 + 205 * h"
    unfolding A_def [symmetric] using A0 h0 by argo
  have "\<bar>q - D\<bar> \<le> \<bar>D\<bar> / 9007199254740992 + h"
    using binary64_error [of "d / e"] unfolding q_def D_def h_def U .
  then have st6: "\<bar>100 * q - 100 * D\<bar> \<le> \<bar>100 * D\<bar> / 9007199254740992 + 100 * h"
    by argo
  have "\<bar>100 * q - a0\<bar>
      \<le> (9 * A / 9007199254740992 + 402 / 9007199254740992 + 205 * h)
        + (\<bar>a0\<bar> + (9 * A / 9007199254740992 + 402 / 9007199254740992 + 205 * h))
            / 9007199254740992
        + 100 * h"
    using B5 st6 by (rule error_step)
  then have B6: "\<bar>100 * q - a0\<bar>
      \<le> 11 * A / 9007199254740992 + 403 / 9007199254740992 + 306 * h"
    unfolding A_def [symmetric] using A0 h0 by argo
  have "\<bar>c - q * 100\<bar> \<le> \<bar>q * 100\<bar> / 9007199254740992 + h"
    using binary64_error [of "q * 100"] unfolding c_def h_def U .
  then have st7: "\<bar>c - 100 * q\<bar> \<le> \<bar>100 * q\<bar> / 9007199254740992 + h"
    by (simp add: mult.commute)
  have "\<bar>c - a0\<bar>
      \<le> (11 * A / 9007199254740992 + 403 / 9007199254740992 + 306 * h)
        + (\<bar>a0\<bar> + (11 * A / 9007199254740992 + 403 / 9007199254740992 + 306 * h))
            / 9007199254740992
        + h"
    using B6 st7 by (rule error_step)
  then have B7: "\<bar>c - a0\<bar> \<le> 13 * A / 9007199254740992 + 405 / 9007199254740992"
    unfolding A_def [symmetric] using A0 h0 h1 by argo
  have xerr: "\<bar>x - c * lev\<bar> \<le> \<bar>c * lev\<bar> / 9007199254740992 + h"
    using binary64_error [of "c * lev"] unfolding x_def h_def U .
  have r: "r = a0 * lev" using levnz by (simp add: a0_def)
  have "\<bar>x - r\<bar> \<le> \<bar>x - c * lev\<bar> + \<bar>c * lev - a0 * lev\<bar>" unfolding r by linarith
  also have "\<bar>c * lev - a0 * lev\<bar> = \<bar>c - a0\<bar> * \<bar>lev\<bar>"
    by (simp add: abs_mult [symmetric] algebra_simps)
  finally have total: "\<bar>x - r\<bar> \<le> \<bar>c\<bar> * \<bar>lev\<bar> / 9007199254740992 + h + \<bar>c - a0\<bar> * \<bar>lev\<bar>"
    using xerr by (simp add: abs_mult)
  have cb: "\<bar>c\<bar> \<le> 2 * A + 1" using B7 A0 unfolding A_def by argo
  have m1: "\<bar>c\<bar> * \<bar>lev\<bar> \<le> (2 * A + 1) * \<bar>lev\<bar>"
    using cb by (rule mult_right_mono) simp
  have m2: "\<bar>c - a0\<bar> * \<bar>lev\<bar>
      \<le> (13 * A / 9007199254740992 + 405 / 9007199254740992) * \<bar>lev\<bar>"
    using B7 by (rule mult_right_mono) simp
  have m3: "A * \<bar>lev\<bar> = \<bar>r\<bar>" unfolding r A_def by (simp add: abs_mult)
  have m4: "h \<le> \<bar>lev\<bar> / 9007199254740992" using h1 lev by argo
  have "(2 * A + 1) * \<bar>lev\<bar> = 2 * \<bar>r\<bar> + \<bar>lev\<bar>"
    unfolding m3 [symmetric] by (simp add: algebra_simps)
  moreover have "(13 * A / 9007199254740992 + 405 / 9007199254740992) * \<bar>lev\<bar>
      = 13 * \<bar>r\<bar> / 9007199254740992 + 405 * \<bar>lev\<bar> / 9007199254740992"
    unfolding m3 [symmetric] by (simp add: algebra_simps)
  ultimately have "\<bar>x - r\<bar> \<le> (16 * \<bar>r\<bar> + 1600 * \<bar>lev\<bar>) / 9007199254740992"
    using total m1 m2 m4 by argo
  also have "\<dots> = (\<bar>r\<bar> + 100 * \<bar>lev\<bar>) / 2 ^ 49" by simp
  finally show ?thesis
    unfolding x_def c_def q_def d_def p_def s_def dl_def a_def .
qed

lemma int_to_float_small:
  assumes "\<bar>l\<bar> \<le> 2 ^ 53"
  shows "int_to_float Binary64 l = Inr (of_int l)"
proof -
  have rep: "binary64 (of_int l) = of_int l"
    using binary64_representable [of l 0] assms by simp
  have "\<bar>of_int l :: real\<bar> \<le> 2 ^ 53"
    using assms by (metis of_int_abs of_int_le_iff of_int_numeral of_int_power)
  moreover have "(2::real) ^ 53 < 2 powi 1024" by simp
  ultimately have "\<not> 2 powi 1024 \<le> \<bar>of_int l :: real\<bar>" by linarith
  with rep show ?thesis by (simp add: Let_def)
qed

lemma roundtrip_binary64:
  assumes e: "2 powi (- 1022) \<le> e" and l: "l \<noteq> 0" "\<bar>l\<bar> \<le> 2 ^ 53"
  shows "\<exists>p x. pct_to_price Binary64 s e r l = Inr p \<and> price_to_roi Binary64 s e p l = Inr x \<and>
           \<bar>x - r\<bar> \<le> (\<bar>r\<bar> + 100 * \<bar>of_int l\<bar>) / 2 ^ 49"
proof -
  define lev :: real where "lev = of_int l"
  have conv: "int_to_float Binary64 l = Inr lev"
    unfolding lev_def using l(2) by (rule int_to_float_small)
  have levnz: "lev \<noteq> 0" using l(1) by (simp add: lev_def)
  have "1 \<le> \<bar>l\<bar>" using l(1) by linarith
  then have lev1: "1 \<le> \<bar>lev\<bar>" unfolding lev_def by linarith
  have epos: "0 < e" using e zero_less_power_int [of "2::real" "- 1022"] by linarith
  show ?thesis
  proof (cases "s = ''long''")
    case True
    have "\<bar>binary64 (binary64 (binary64 (binary64
            (binary64 (e * binary64 (1 + binary64 (binary64 (r / lev) / 100))) - e) / e) * 100) * lev)
          - r\<bar> \<le> (\<bar>r\<bar> + 100 * \<bar>lev\<bar>) / 2 ^ 49"
      using e lev1 by (rule roundtrip_core)
    with True conv levnz epos show ?thesis
      by (simp add: pct_to_price_def price_to_roi_def Let_def lev_def [symmetric])
  next
    case False
    have "\<bar>binary64 (binary64 (binary64 (binary64
            (binary64 (e * binary64 (1 + binary64 (binary64 (- r / lev) / 100))) - e) / e) * 100) * lev)
          - (- r)\<bar> \<le> (\<bar>- r\<bar> + 100 * \<bar>lev\<bar>) / 2 ^ 49"
      using e lev1 by (rule roundtrip_core)
    then have "\<bar>- binary64 (binary64 (binary64 (binary64
            (binary64 (e * binary64 (1 - binary64 (binary64 (r / lev) / 100))) - e) / e) * 100) * lev)
          - r\<bar> \<le> (\<bar>r\<bar> + 100 * \<bar>lev\<bar>) / 2 ^ 49"
      by (simp add: binary64_minus abs_minus_commute add.commute)
    with False conv levnz epos show ?thesis
      by (simp add: pct_to_price_def price_to_roi_def Let_def lev_def [symmetric])
  qed
qed

lemma binary64_subnormal:
  assumes "\<bar>y\<bar> < 2 powi (- 1022)" and "y \<noteq> 0"
  shows "binary64 y = of_int (rne (y / 2 powi (- 1074))) * 2 powi (- 1074)"
proof -
  from assms have "expo y = - 1022" by (rule expo_subnormal)
  then have "ulp y = 2 powi (- 1074)" by (simp add: ulp_def)
  then show ?thesis by (simp only: binary64_def)
qed

lemma roundtrip_subnormal:
  fixes t :: real
  assumes t: "t = 2 powi (- 1074)"
  shows "pct_to_price Binary64 ''long'' t 4000 100 = Inr t \<and>
         price_to_roi Binary64 ''long'' t t 100 = Inr 0"
proof -
  have tpos: "0 < t" unfolding t by simp
  have s1: "binary64 40 = 40"
    using binary64_eval [of 5 40] by (simp add: rne_def)
  have s2: "binary64 (2 / 5) = 3602879701896397 / 9007199254740992"
    using binary64_eval [of "- 2" "2 / 5"] by (simp add: rne_def)
  have s3: "binary64 (12610078956637389 / 9007199254740992) = 3152519739159347 / 2251799813685248"
    using binary64_eval [of 0 "12610078956637389 / 9007199254740992"] by (simp add: rne_def)
  define y where "y = t * (3152519739159347 / 2251799813685248)"
  have ypos: "0 < y" using tpos by (simp add: y_def)
  have "y < t * 2" unfolding y_def using tpos by simp
  also have "\<dots> = 2 powi (- 1074) * 2 powi 1" unfolding t by simp
  also have "\<dots> = 2 powi (- 1073)" by (subst power_int_add [symmetric]) simp_all
  also have "\<dots> \<le> 2 powi (- 1022)" by (rule power_int_increasing) simp_all
  finally have "\<bar>y\<bar> < 2 powi (- 1022)" using ypos by simp
  then have "binary64 y = of_int (rne (y / 2 powi (- 1074))) * 2 powi (- 1074)"
    using ypos by (intro binary64_subnormal) simp_all
  moreover have "y / 2 powi (- 1074) = 3152519739159347 / 2251799813685248"
    unfolding y_def t [symmetric] using tpos by simp
  moreover have "rne (3152519739159347 / 2251799813685248) = 1"
    by (simp add: rne_def)
  ultimately have s4: "binary64 (t * (3152519739159347 / 2251799813685248)) = t"
    unfolding y_def t [symmetric] by simp
  have price: "pct_to_price Binary64 ''long'' t 4000 100 = Inr t"
    using s4 by (simp add: pct_to_price_def binary64_100 s1 s2 s3)
  have roi: "price_to_roi Binary64 ''long'' t t 100 = Inr 0"
    using tpos by (simp add: price_to_roi_def binary64_100 binary64_0)
  from price roi show ?thesis ..
qed

text \<open>
  C3, as amended. For every side, every leverage other than 0 and every ROI percent \<open>r\<close>,
  converting \<open>r\<close> to a price and back gives \<open>r\<close> exactly in exact arithmetic, for every
  entry price \<open>e > 0\<close>. At leverage 0 \<^verbatim>\<open>pct_to_price\<close> raises \<^verbatim>\<open>ZeroDivisionError\<close>,
  in either arithmetic. In the arithmetic of the code the round trip returns \<open>r\<close> up to
  rounding: for an entry price in the normal range of the doubles, \<open>2\<^sup>-\<^sup>1\<^sup>0\<^sup>2\<^sup>2 \<le> e\<close>, the
  result differs from \<open>r\<close> by at most \<open>(\<bar>r\<bar> + 100 * \<bar>leverage\<bar>) / 2\<^sup>4\<^sup>9\<close>. The bounds
  \<open>e \<le> 2\<^sup>5\<^sup>0\<^sup>0\<close>, \<open>\<bar>r\<bar> \<le> 2\<^sup>5\<^sup>0\<^sup>0\<close> and \<open>\<bar>leverage\<bar> \<le> 2\<^sup>5\<^sup>3\<close> keep every intermediate value
  of the code far below \<open>2\<^sup>1\<^sup>0\<^sup>2\<^sup>4\<close>, where a double of Python is the rounded real of this
  model. The result need not be \<open>r\<close> itself: at entry 2000, leverage 100 and ROI 18 it is
  18.000000000000682.
\<close>

theorem roi_price_roundtrip:
  "(0 < e \<and> l \<noteq> 0 \<longrightarrow>
      (\<exists>p. pct_to_price Exact s e r l = Inr p \<and> price_to_roi Exact s e p l = Inr r)) \<and>
   pct_to_price ar s e r 0 = Inl ZeroDivisionError \<and>
   (2 powi (- 1022) \<le> e \<and> e \<le> 2 ^ 500 \<and> \<bar>r\<bar> \<le> 2 ^ 500 \<and> l \<noteq> 0 \<and> \<bar>l\<bar> \<le> 2 ^ 53 \<longrightarrow>
      (\<exists>p x. pct_to_price Binary64 s e r l = Inr p \<and> price_to_roi Binary64 s e p l = Inr x \<and>
         \<bar>x - r\<bar> \<le> (\<bar>r\<bar> + 100 * \<bar>of_int l\<bar>) / 2 ^ 49)) \<and>
   (\<exists>p x. pct_to_price Binary64 ''long'' 2000 18 100 = Inr p \<and>
      price_to_roi Binary64 ''long'' 2000 p 100 = Inr x \<and> x \<noteq> 18 \<and> \<bar>x - 18\<bar> \<le> 1 / 10 ^ 9)"
proof -
  have exact: "\<exists>p. pct_to_price Exact s e r l = Inr p \<and> price_to_roi Exact s e p l = Inr r"
    if "0 < e" and "l \<noteq> 0"
    using that by (simp add: pct_to_price_def price_to_roi_def Let_def field_simps)
  have zero: "pct_to_price ar s e r 0 = Inl ZeroDivisionError"
    by (simp add: pct_to_price_def int_to_float_0)
  have rounded: "\<exists>p x. pct_to_price Binary64 s e r l = Inr p \<and>
      price_to_roi Binary64 s e p l = Inr x \<and> \<bar>x - r\<bar> \<le> (\<bar>r\<bar> + 100 * \<bar>of_int l\<bar>) / 2 ^ 49"
    if "2 powi (- 1022) \<le> e" and "l \<noteq> 0" and "\<bar>l\<bar> \<le> 2 ^ 53"
    using that by (rule roundtrip_binary64)
  have "\<bar>79164837199875 / 4398046511104 - 18 :: real\<bar> \<le> 1 / 10 ^ 9"
    and "(79164837199875 / 4398046511104 :: real) \<noteq> 18"
    by simp_all
  with roundtrip_binary64_example
  have double: "\<exists>p x. pct_to_price Binary64 ''long'' 2000 18 100 = Inr p \<and>
      price_to_roi Binary64 ''long'' 2000 p 100 = Inr x \<and> x \<noteq> 18 \<and> \<bar>x - 18\<bar> \<le> 1 / 10 ^ 9"
    by blast
  from exact zero rounded double show ?thesis by blast
qed

theorem roi_price_roundtrip_witness:
  "(\<exists>p. pct_to_price Exact ''short'' 2000 18 100 = Inr p \<and>
      price_to_roi Exact ''short'' 2000 p 100 = Inr 18) \<and>
   pct_to_price Binary64 ''short'' 2000 18 0 = Inl ZeroDivisionError \<and>
   (\<exists>p x. pct_to_price Binary64 ''short'' 2000 18 100 = Inr p \<and>
      price_to_roi Binary64 ''short'' 2000 p 100 = Inr x \<and> \<bar>x - 18\<bar> \<le> 10018 / 2 ^ 49)"
proof -
  have "(2::real) powi (- 1022) \<le> 2 powi 0" by (rule power_int_increasing) simp_all
  then have e: "(2::real) powi (- 1022) \<le> 2000" by simp
  have r: "(2000::real) \<le> 2 ^ 500" "\<bar>18 :: real\<bar> \<le> 2 ^ 500" by simp_all
  have l: "(100::int) \<noteq> 0" "\<bar>100 :: int\<bar> \<le> 2 ^ 53" by simp_all
  from roi_price_roundtrip [where e = 2000 and l = 100 and s = "''short''" and r = 18
      and ar = Binary64] e r l
  show ?thesis by simp
qed

text \<open>
  C3 as stated fails at leverage 0, where \<^verbatim>\<open>pct_to_price\<close> raises
  \<^verbatim>\<open>ZeroDivisionError\<close> and there is no price to convert back. In doubles it also
  fails for an entry price below the normal range: at the smallest positive double
  \<open>2\<^sup>-\<^sup>1\<^sup>0\<^sup>7\<^sup>4\<close> and ROI 4000 the product \<open>e * 1.4\<close> rounds to \<open>e\<close>, the price is the entry
  price and the round trip returns 0.
\<close>

theorem roi_price_roundtrip_counterexample:
  "\<not> (\<exists>p. pct_to_price Exact ''long'' 2000 5 0 = Inr p \<and>
          price_to_roi Exact ''long'' 2000 p 0 = Inr 5) \<and>
   \<not> (\<exists>p. pct_to_price Binary64 ''long'' 2000 5 0 = Inr p \<and>
          price_to_roi Binary64 ''long'' 2000 p 0 = Inr 5) \<and>
   pct_to_price Binary64 ''long'' (2 powi (- 1074)) 4000 100 = Inr (2 powi (- 1074)) \<and>
   price_to_roi Binary64 ''long'' (2 powi (- 1074)) (2 powi (- 1074)) 100 = Inr 0"
proof -
  have "\<not> (\<exists>p. pct_to_price Exact ''long'' 2000 5 0 = Inr p \<and>
          price_to_roi Exact ''long'' 2000 p 0 = Inr 5)"
    and "\<not> (\<exists>p. pct_to_price Binary64 ''long'' 2000 5 0 = Inr p \<and>
          price_to_roi Binary64 ''long'' 2000 p 0 = Inr 5)"
    by (simp_all add: pct_to_price_def binary64_0)
  with roundtrip_subnormal [OF refl] show ?thesis by blast
qed

section \<open>Position sizing\<close>

lemma determine_position_size_example:
  "determine_position_size (Fin 5000) (Fin 2000) (Fin 1) 100 (Fin 1) = Inr 2"
proof -
  have s1: "binary64 (1 / 100) = 5764607523034235 / 576460752303423488"
    using binary64_eval [of "- 7" "1 / 100"] by (simp add: rne_def)
  have s2: "binary64 (3602879701896396875 / 72057594037927936) = 50"
    using binary64_eval [of 5 "3602879701896396875 / 72057594037927936"] by (simp add: rne_def)
  have s3: "binary64 5000 = 5000"
    using binary64_eval [of 12 5000] by (simp add: rne_def)
  have s4: "binary64 (5 / 2) = 5 / 2"
    using binary64_eval [of 1 "5 / 2"] by (simp add: rne_def)
  have "\<lfloor>5 / 2 :: real\<rfloor> = 2" by (simp add: floor_eq_iff)
  then show ?thesis
    by (simp add: determine_position_size_def f64_le_def float_mul_def float_div_def
          f64_round_def binary64_100 binary64_2000 s1 s2 s3 s4)
qed

lemma determine_position_size_rounded:
  "determine_position_size (Fin 1400) (Fin 2000) (Fin 70) 100 (Fin 1) = Inr 48"
proof -
  have s1: "binary64 (7 / 10) = 3152519739159347 / 4503599627370496"
    using binary64_eval [of "- 1" "7 / 10"] by (simp add: rne_def)
  have s2: "binary64 (551690954352885725 / 562949953421312) = 8620171161763839 / 8796093022208"
    using binary64_eval [of 9 "551690954352885725 / 562949953421312"] by (simp add: rne_def)
  have s3: "binary64 (215504279044095975 / 2199023255552) = 6734508720127999 / 68719476736"
    using binary64_eval [of 16 "215504279044095975 / 2199023255552"] by (simp add: rne_def)
  have s4: "binary64 (6734508720127999 / 137438953472000) = 6896136929411071 / 140737488355328"
    using binary64_eval [of 5 "6734508720127999 / 137438953472000"] by (simp add: rne_def)
  have "\<lfloor>6896136929411071 / 140737488355328 :: real\<rfloor> = 48" by (simp add: floor_eq_iff)
  then show ?thesis
    by (simp add: determine_position_size_def f64_le_def float_mul_def float_div_def
          f64_round_def binary64_100 binary64_2000 s1 s2 s3 s4)
qed

lemma determine_position_size_negative_entry:
  "determine_position_size (Fin 5000) (Fin (- 2000)) (Fin 1) 100 (Fin 1) = Inr 1"
proof -
  have s1: "binary64 (1 / 100) = 5764607523034235 / 576460752303423488"
    using binary64_eval [of "- 7" "1 / 100"] by (simp add: rne_def)
  have s2: "binary64 (3602879701896396875 / 72057594037927936) = 50"
    using binary64_eval [of 5 "3602879701896396875 / 72057594037927936"] by (simp add: rne_def)
  have s3: "binary64 5000 = 5000"
    using binary64_eval [of 12 5000] by (simp add: rne_def)
  have s4: "binary64 (5 / 2) = 5 / 2"
    using binary64_eval [of 1 "5 / 2"] by (simp add: rne_def)
  have "\<lfloor>- (5 / 2) :: real\<rfloor> = - 3" by (simp add: floor_eq_iff)
  then show ?thesis
    by (simp add: determine_position_size_def f64_le_def float_mul_def float_div_def
          f64_round_def binary64_100 binary64_2000 binary64_minus s1 s2 s3 s4)
qed

lemma determine_position_size_zero_entry:
  "determine_position_size (Fin 5000) (Fin 0) (Fin 1) 100 (Fin 1) = Inl ZeroDivisionError"
proof -
  have s1: "binary64 (1 / 100) = 5764607523034235 / 576460752303423488"
    using binary64_eval [of "- 7" "1 / 100"] by (simp add: rne_def)
  have s2: "binary64 (3602879701896396875 / 72057594037927936) = 50"
    using binary64_eval [of 5 "3602879701896396875 / 72057594037927936"] by (simp add: rne_def)
  have s3: "binary64 5000 = 5000"
    using binary64_eval [of 12 5000] by (simp add: rne_def)
  show ?thesis
    by (simp add: determine_position_size_def f64_le_def float_mul_def float_div_def
          f64_round_def binary64_100 binary64_0 s1 s2 s3)
qed

text \<open>
  C4, as amended. \<^verbatim>\<open>determine_position_size\<close> raises \<^verbatim>\<open>ValueError\<close> whenever the
  balance is at most 0. Otherwise it raises \<^verbatim>\<open>OverflowError\<close> when the leverage is too
  large for a float and \<^verbatim>\<open>ZeroDivisionError\<close> when \<open>entry_price * multiplier\<close> is 0;
  else it computes the quotient \<open>(balance * (risk_percent / 100) * leverage) /
  (entry_price * multiplier)\<close> in doubles, every operation rounded, and returns \<open>max 1 \<lfloor>q\<rfloor>\<close>
  for a finite quotient \<open>q\<close>, while \<^verbatim>\<open>math.floor\<close> raises \<^verbatim>\<open>ValueError\<close> for a NaN
  and \<^verbatim>\<open>OverflowError\<close> for an infinite quotient. Balance 5000, risk 1, leverage 100,
  entry 2000 and multiplier 1 give size 2; balance 1400, risk 70, leverage 100, entry
  2000 and multiplier 1 give size 48.
\<close>

theorem position_size_spec:
  "(f64_le b (Fin 0) \<longrightarrow> determine_position_size b e pp l m = Inl ValueError) \<and>
   (\<not> f64_le b (Fin 0) \<and> int_to_float Binary64 l = Inl err \<longrightarrow>
      err = OverflowError \<and> determine_position_size b e pp l m = Inl OverflowError) \<and>
   (\<not> f64_le b (Fin 0) \<and> int_to_float Binary64 l = Inr lev \<longrightarrow>
      determine_position_size b e pp l m =
        (if f64_eq (float_mul e m) (Fin 0) then Inl ZeroDivisionError
         else case float_div (float_mul (float_mul b (float_div pp (Fin 100))) (Fin lev))
                     (float_mul e m) of
                Fin q \<Rightarrow> Inr (max 1 \<lfloor>q\<rfloor>)
              | NaN \<Rightarrow> Inl ValueError
              | _ \<Rightarrow> Inl OverflowError)) \<and>
   determine_position_size (Fin 5000) (Fin 2000) (Fin 1) 100 (Fin 1) = Inr 2 \<and>
   determine_position_size (Fin 1400) (Fin 2000) (Fin 70) 100 (Fin 1) = Inr 48"
proof -
  have neg: "determine_position_size b e pp l m = Inl ValueError" if "f64_le b (Fin 0)"
    using that by (simp add: determine_position_size_def)
  have pos: "determine_position_size b e pp l m =
        (if f64_eq (float_mul e m) (Fin 0) then Inl ZeroDivisionError
         else case float_div (float_mul (float_mul b (float_div pp (Fin 100))) (Fin lev))
                     (float_mul e m) of
                Fin q \<Rightarrow> Inr (max 1 \<lfloor>q\<rfloor>)
              | NaN \<Rightarrow> Inl ValueError
              | _ \<Rightarrow> Inl OverflowError)"
    if "\<not> f64_le b (Fin 0)" and "int_to_float Binary64 l = Inr lev"
    using that
    by (cases "float_div (float_mul (float_mul b (float_div pp (Fin 100))) (Fin lev))
                 (float_mul e m)")
      (simp_all add: determine_position_size_def Let_def max.commute)
  have ovf: "err = OverflowError \<and> determine_position_size b e pp l m = Inl OverflowError"
    if "\<not> f64_le b (Fin 0)" and "int_to_float Binary64 l = Inl err"
  proof -
    from that(2) have "err = OverflowError"
      by (simp add: Let_def split: if_splits)
    with that show ?thesis by (simp add: determine_position_size_def Let_def)
  qed
  from neg ovf pos determine_position_size_example determine_position_size_rounded
  show ?thesis by blast
qed

theorem position_size_spec_witness:
  "determine_position_size (Fin 0) (Fin 2000) (Fin 1) 100 (Fin 1) = Inl ValueError \<and>
   determine_position_size (Fin 5000) (Fin 0) (Fin 1) 100 (Fin 1) = Inl ZeroDivisionError \<and>
   determine_position_size (Fin 5000) (Fin 2000) (Fin 1) 100 (Fin 1) = Inr 2"
proof -
  have lev: "int_to_float Binary64 100 = Inr 100" by (simp add: binary64_100)
  have b: "\<not> f64_le (Fin 5000) (Fin 0)" and z: "f64_le (Fin 0) (Fin 0)"
    by (simp_all add: f64_le_def)
  have den: "f64_eq (float_mul (Fin 0) (Fin 1)) (Fin 0)"
    by (simp add: float_mul_def f64_round_def binary64_0)
  from position_size_spec [where b = "Fin 0" and e = "Fin 2000" and pp = "Fin 1" and l = 100
      and m = "Fin 1" and lev = 100] z
    position_size_spec [where b = "Fin 5000" and e = "Fin 0" and pp = "Fin 1" and l = 100
      and m = "Fin 1" and lev = 100] b lev den
  show ?thesis by simp
qed

text \<open>
  C4 as stated fails at a positive balance and entry price 0, where the call raises
  \<^verbatim>\<open>ZeroDivisionError\<close> and returns no size; and at balance 1400, risk 70, leverage
  100 and entry 2000, where the size is 48 and the exact value of the formula is 49 (the
  rounded quotient is 48.99999999999999).
\<close>

theorem position_size_counterexample:
  "determine_position_size (Fin 5000) (Fin 0) (Fin 1) 100 (Fin 1) = Inl ZeroDivisionError \<and>
   determine_position_size (Fin 1400) (Fin 2000) (Fin 70) 100 (Fin 1) = Inr 48 \<and>
   max 1 \<lfloor>(1400 * 70 / 100 * of_int 100) / (2000 * 1 :: real)\<rfloor> = 49"
proof -
  have "\<lfloor>(1400 * 70 / 100 * of_int 100) / (2000 * 1 :: real)\<rfloor> = 49"
    by (simp add: floor_eq_iff)
  with determine_position_size_zero_entry determine_position_size_rounded
  show ?thesis by simp
qed

section \<open>The trade plan\<close>

lemma binary64_pow45: "binary64 (1 / 2 ^ 45) = 1 / 2 ^ 45"
  using binary64_eval [of "- 45" "1 / 2 ^ 45"] by (simp add: rne_def)

lemma binary64_pow52: "binary64 (1 / 2 ^ 52) = 1 / 2 ^ 52"
  using binary64_eval [of "- 52" "1 / 2 ^ 52"] by (simp add: rne_def)

lemma binary64_pow50: "binary64 (1 / 2 ^ 50) = 1 / 2 ^ 50"
  using binary64_eval [of "- 50" "1 / 2 ^ 50"] by (simp add: rne_def)

lemma binary64_pow56: "binary64 (1 / 2 ^ 56) = 1 / 2 ^ 56"
  using binary64_eval [of "- 56" "1 / 2 ^ 56"] by (simp add: rne_def)

lemma binary64_above_one: "binary64 (1 + 1 / 2 ^ 52) = 1 + 1 / 2 ^ 52"
  using binary64_eval [of 0 "1 + 1 / 2 ^ 52"] by (simp add: rne_def)

lemma binary64_below_one: "binary64 (1 - 1 / 2 ^ 52) = 1 - 1 / 2 ^ 52"
  using binary64_eval [of "- 1" "1 - 1 / 2 ^ 52"] by (simp add: rne_def)

lemma binary64_near_one_above: "binary64 (1 + 1 / 2 ^ 56) = 1"
  using binary64_eval [of 0 "1 + 1 / 2 ^ 56"] by (simp add: rne_def)

lemma binary64_near_one_below: "binary64 (1 - 1 / 2 ^ 56) = 1"
  using binary64_eval [of "- 1" "1 - 1 / 2 ^ 56"] by (simp add: rne_def)

text \<open>The ratio \<^verbatim>\<open>(roi_percent / leverage) / 100\<close> at the default leverage.\<close>

lemma ratio_minus:
  "binary64 (binary64 (- (r / 100)) / 100) = - binary64 (binary64 (r / 100) / 100)"
  using binary64_minus [of "binary64 (r / 100) / 100"] by (simp add: binary64_minus)

lemma ratio_nonneg: "0 \<le> r \<Longrightarrow> 0 \<le> binary64 (binary64 (r / 100) / 100)"
  by (simp add: binary64_nonneg)

lemma ratio_lower:
  assumes "1 / 2 ^ 38 \<le> r"
  shows "1 / 2 ^ 52 \<le> binary64 (binary64 (r / 100) / 100)"
proof -
  have "1 / 2 ^ 45 \<le> r / 100" using assms by simp
  then have "binary64 (1 / 2 ^ 45) \<le> binary64 (r / 100)" by (rule binary64_mono)
  then have "1 / 2 ^ 45 \<le> binary64 (r / 100)" by (simp only: binary64_pow45)
  then have "1 / 2 ^ 52 \<le> binary64 (r / 100) / 100" by simp
  then have "binary64 (1 / 2 ^ 52) \<le> binary64 (binary64 (r / 100) / 100)"
    by (rule binary64_mono)
  then show ?thesis by (simp only: binary64_pow52)
qed

lemma ratio_tiny:
  assumes "0 \<le> r" and "r \<le> 1 / 2 ^ 44"
  shows "binary64 (binary64 (r / 100) / 100) \<le> 1 / 2 ^ 56"
proof -
  have "r / 100 \<le> 1 / 2 ^ 50" using assms by simp
  then have "binary64 (r / 100) \<le> binary64 (1 / 2 ^ 50)" by (rule binary64_mono)
  then have "binary64 (r / 100) \<le> 1 / 2 ^ 50" by (simp only: binary64_pow50)
  then have "binary64 (r / 100) / 100 \<le> 1 / 2 ^ 56" by simp
  then have "binary64 (binary64 (r / 100) / 100) \<le> binary64 (1 / 2 ^ 56)"
    by (rule binary64_mono)
  then show ?thesis by (simp only: binary64_pow56)
qed

text \<open>Scaling a double by a factor on one side of 1.\<close>

lemma scale_ge:
  assumes "binary64 e = e" and "0 < e" and "1 \<le> c"
  shows "e \<le> binary64 (e * c)"
proof -
  have "e * 1 \<le> e * c" using assms(2,3) by (intro mult_left_mono) simp_all
  then have "binary64 e \<le> binary64 (e * c)" by (intro binary64_mono) simp
  with assms(1) show ?thesis by simp
qed

lemma scale_le:
  assumes "binary64 e = e" and "0 < e" and "c \<le> 1"
  shows "binary64 (e * c) \<le> e"
proof -
  have "e * c \<le> e * 1" using assms(2,3) by (intro mult_left_mono) simp_all
  then have "binary64 (e * c) \<le> binary64 e" by (intro binary64_mono) simp
  with assms(1) show ?thesis by simp
qed

lemma one_plus_ge: "0 \<le> x \<Longrightarrow> 1 \<le> binary64 (1 + x)"
  using binary64_mono [of 1 "1 + x"] by (simp add: binary64_1)

lemma one_minus_le: "0 \<le> x \<Longrightarrow> binary64 (1 - x) \<le> 1"
  using binary64_mono [of "1 - x" 1] by (simp add: binary64_1)

lemma powi_52: "(2::real) powi (- 52) = 1 / 2 ^ 52"
  by (simp add: power_int_minus)

lemma one_plus_above:
  assumes "1 / 2 ^ 52 \<le> x"
  shows "1 + 2 powi (- 52) \<le> binary64 (1 + x)"
proof -
  have "1 + 1 / 2 ^ 52 \<le> 1 + x" using assms by simp
  then have "binary64 (1 + 1 / 2 ^ 52) \<le> binary64 (1 + x)" by (rule binary64_mono)
  then show ?thesis by (simp only: binary64_above_one powi_52)
qed

lemma one_minus_below:
  assumes "1 / 2 ^ 52 \<le> x"
  shows "binary64 (1 - x) \<le> 1 - 2 powi (- 52)"
proof -
  have "1 - x \<le> 1 - 1 / 2 ^ 52" using assms by simp
  then have "binary64 (1 - x) \<le> binary64 (1 - 1 / 2 ^ 52)" by (rule binary64_mono)
  then show ?thesis by (simp only: binary64_below_one powi_52)
qed

text \<open>
  The price of a positive ROI lies on the profit side of the entry price, the price of
  a negative ROI on the loss side; strictly so from an ROI of \<open>2\<^sup>-\<^sup>3\<^sup>8\<close> percent on.
\<close>

lemma profit_price:
  assumes e: "binary64 e = e" "0 < e" and r: "0 \<le> r"
  shows "pct_to_price Binary64 side e r LEVERAGE = Inr p \<Longrightarrow>
           (if side = ''long'' then e \<le> p else p \<le> e)"
  using scale_ge [OF e one_plus_ge [OF ratio_nonneg [OF r]]]
    scale_le [OF e one_minus_le [OF ratio_nonneg [OF r]]]
  by (auto simp add: pct_to_price_default)

lemma loss_price:
  assumes e: "binary64 e = e" "0 < e" and r: "0 \<le> r"
  shows "pct_to_price Binary64 side e (- r) LEVERAGE = Inr p \<Longrightarrow>
           (if side = ''long'' then p \<le> e else e \<le> p)"
  using scale_ge [OF e one_plus_ge [OF ratio_nonneg [OF r]]]
    scale_le [OF e one_minus_le [OF ratio_nonneg [OF r]]]
  by (auto simp add: pct_to_price_default ratio_minus)

lemma profit_price_strict:
  assumes e: "binary64 e = e" "2 powi (- 1022) \<le> e" and r: "1 / 2 ^ 38 \<le> r"
  shows "pct_to_price Binary64 side e r LEVERAGE = Inr p \<Longrightarrow>
           (if side = ''long'' then e < p else p < e)"
  using binary64_mult_above [OF e one_plus_above [OF ratio_lower [OF r]]]
    binary64_mult_below [OF e one_minus_below [OF ratio_lower [OF r]]]
  by (auto simp add: pct_to_price_default)

lemma loss_price_strict:
  assumes e: "binary64 e = e" "2 powi (- 1022) \<le> e" and r: "1 / 2 ^ 38 \<le> r"
  shows "pct_to_price Binary64 side e (- r) LEVERAGE = Inr p \<Longrightarrow>
           (if side = ''long'' then p < e else e < p)"
  using binary64_mult_above [OF e one_plus_above [OF ratio_lower [OF r]]]
    binary64_mult_below [OF e one_minus_below [OF ratio_lower [OF r]]]
  by (auto simp add: pct_to_price_default ratio_minus)

lemma tiny_roi_price:
  assumes e: "binary64 e = e" and r: "0 \<le> r" "r \<le> 1 / 2 ^ 44"
  shows "pct_to_price Binary64 side e r LEVERAGE = Inr e"
    and "pct_to_price Binary64 side e (- r) LEVERAGE = Inr e"
proof -
  let ?x = "binary64 (binary64 (r / 100) / 100)"
  have lo: "0 \<le> ?x" by (rule ratio_nonneg [OF r(1)])
  have hi: "?x \<le> 1 / 2 ^ 56" by (rule ratio_tiny [OF r])
  have "binary64 (1 + ?x) \<le> binary64 (1 + 1 / 2 ^ 56)" using hi by (intro binary64_mono) simp
  then have "binary64 (1 + ?x) \<le> 1" by (simp only: binary64_near_one_above)
  moreover have "binary64 1 \<le> binary64 (1 + ?x)" using lo by (intro binary64_mono) simp
  then have "1 \<le> binary64 (1 + ?x)" by (simp only: binary64_1)
  ultimately have up: "binary64 (1 + ?x) = 1" by (rule order.antisym)
  have "binary64 (1 - 1 / 2 ^ 56) \<le> binary64 (1 - ?x)" using hi by (intro binary64_mono) simp
  then have "1 \<le> binary64 (1 - ?x)" by (simp only: binary64_near_one_below)
  moreover have "binary64 (1 - ?x) \<le> binary64 1" using lo by (intro binary64_mono) simp
  then have "binary64 (1 - ?x) \<le> 1" by (simp only: binary64_1)
  ultimately have down: "binary64 (1 - ?x) = 1" by (intro order.antisym)
  show "pct_to_price Binary64 side e r LEVERAGE = Inr e"
    by (simp add: pct_to_price_default up down e)
  show "pct_to_price Binary64 side e (- r) LEVERAGE = Inr e"
    by (simp add: pct_to_price_default ratio_minus up down e)
qed

lemma build_trade_plan_Inr:
  assumes "build_trade_plan side e ind inputs trailing bal pp now = Inr plan"
  shows "plan_entry_price plan = e"
    and "pct_to_price Binary64 side e (- stop_loss_roi trailing) LEVERAGE
           = Inr (plan_stop_loss_price plan)"
    and "pct_to_price Binary64 side e (min_profit_roi inputs) LEVERAGE
           = Inr (plan_take_profit_price plan)"
    and "compute_trailing_stop Binary64 side e 0 trailing (Some (plan_stop_loss_price plan))
           = Inr (plan_trailing_stop_price plan)"
  using assms
  by (auto simp add: build_trade_plan_def Let_def split: sum.splits)

text \<open>
  C9, as amended. For every plan that \<^verbatim>\<open>build_trade_plan\<close> produces from an entry price
  \<open>> 0\<close> (a double), a trailing configuration that passes its validation (all three
  values positive) and a \<^verbatim>\<open>min_profit_roi\<close> \<open>\<ge> 0\<close>: a long plan has stop-loss \<open>\<le>\<close> entry
  \<open>\<le>\<close> take-profit, a short plan has take-profit \<open>\<le>\<close> entry \<open>\<le>\<close> stop-loss, and the initial
  trailing stop is the static stop-loss price. The inequalities are strict when
  \<^verbatim>\<open>stop_loss_roi\<close> and \<^verbatim>\<open>min_profit_roi\<close> are at least \<open>2\<^sup>-\<^sup>3\<^sup>8\<close> (about
  \<open>3.7 * 10\<^sup>-\<^sup>1\<^sup>2\<close>) and the entry price is at least \<open>2\<^sup>-\<^sup>1\<^sup>0\<^sup>2\<^sup>2\<close>; for a smaller ROI the
  rounding of \<open>1 + ratio\<close> can return 1, and the price is the entry price itself.
\<close>

theorem trade_plan_price_order:
  assumes plan: "build_trade_plan side e ind inputs trailing bal pp now = Inr plan"
    and e: "0 < e" "binary64 e = e"
    and cfg: "validate_trailing trailing = Inr ()"
    and tp: "0 \<le> min_profit_roi inputs"
  shows "(side = ''long'' \<longrightarrow>
            plan_stop_loss_price plan \<le> plan_entry_price plan \<and>
            plan_entry_price plan \<le> plan_take_profit_price plan) \<and>
         (side = ''short'' \<longrightarrow>
            plan_take_profit_price plan \<le> plan_entry_price plan \<and>
            plan_entry_price plan \<le> plan_stop_loss_price plan) \<and>
         (2 powi (- 1022) \<le> e \<and> 1 / 2 ^ 38 \<le> stop_loss_roi trailing \<and>
            1 / 2 ^ 38 \<le> min_profit_roi inputs \<longrightarrow>
            (side = ''long'' \<longrightarrow>
               plan_stop_loss_price plan < plan_entry_price plan \<and>
               plan_entry_price plan < plan_take_profit_price plan) \<and>
            (side = ''short'' \<longrightarrow>
               plan_take_profit_price plan < plan_entry_price plan \<and>
               plan_entry_price plan < plan_stop_loss_price plan)) \<and>
         plan_trailing_stop_price plan = plan_stop_loss_price plan"
proof -
  from cfg have pos: "0 < start_roi trailing" "0 \<le> stop_loss_roi trailing"
    by (simp_all add: validate_trailing_def split: if_splits)
  note fields = build_trade_plan_Inr [OF plan]
  note sl = loss_price [OF e(2,1) pos(2) fields(2)]
  note tk = profit_price [OF e(2,1) tp fields(3)]
  have long: "plan_stop_loss_price plan \<le> plan_entry_price plan \<and>
      plan_entry_price plan \<le> plan_take_profit_price plan" if "side = ''long''"
    using that sl tk fields(1) by simp
  have short: "plan_take_profit_price plan \<le> plan_entry_price plan \<and>
      plan_entry_price plan \<le> plan_stop_loss_price plan" if "side = ''short''"
    using that sl tk fields(1) by simp
  have strict: "(side = ''long'' \<longrightarrow>
               plan_stop_loss_price plan < plan_entry_price plan \<and>
               plan_entry_price plan < plan_take_profit_price plan) \<and>
            (side = ''short'' \<longrightarrow>
               plan_take_profit_price plan < plan_entry_price plan \<and>
               plan_entry_price plan < plan_stop_loss_price plan)"
    if "2 powi (- 1022) \<le> e" and "1 / 2 ^ 38 \<le> stop_loss_roi trailing"
      and "1 / 2 ^ 38 \<le> min_profit_roi inputs"
    using loss_price_strict [OF e(2) that(1,2) fields(2)]
      profit_price_strict [OF e(2) that(1,3) fields(3)] fields(1)
    by simp
  have trail: "plan_trailing_stop_price plan = plan_stop_loss_price plan"
    using fields(2,4) pos(1)
    by (cases "side = ''long''")
      (simp_all add: compute_trailing_stop_eq pct_to_price_default Let_def)
  from long short strict trail show ?thesis by blast
qed

lemma default_size:
  "determine_position_size (Fin 5000) (Fin 2000) (Fin 1) LEVERAGE (Fin CONTRACT_MULTIPLIER)
     = Inr 2"
  using determine_position_size_example by (simp add: LEVERAGE_def CONTRACT_MULTIPLIER_def)

lemma default_plan:
  "\<exists>plan. build_trade_plan ''long'' 2000 () default_inputs default_trailing 5000 1 0 = Inr plan"
  by (simp add: build_trade_plan_def pct_to_price_default compute_trailing_stop_eq Let_def
        default_size)

theorem trade_plan_price_order_witness:
  "\<exists>plan. build_trade_plan ''long'' 2000 () default_inputs default_trailing 5000 1 0 = Inr plan \<and>
     plan_stop_loss_price plan < plan_entry_price plan \<and>
     plan_entry_price plan < plan_take_profit_price plan \<and>
     plan_trailing_stop_price plan = plan_stop_loss_price plan"
proof -
  from default_plan obtain plan where
    plan: "build_trade_plan ''long'' 2000 () default_inputs default_trailing 5000 1 0 = Inr plan"
    ..
  have cfg: "validate_trailing default_trailing = Inr ()"
    by (simp add: validate_trailing_def default_trailing_def)
  have tp: "0 \<le> min_profit_roi default_inputs"
    by (simp add: default_inputs_def)
  have big: "2 powi (- 1022) \<le> (2000::real) \<and> 1 / 2 ^ 38 \<le> stop_loss_roi default_trailing \<and>
      1 / 2 ^ 38 \<le> min_profit_roi default_inputs"
    by (simp add: default_inputs_def default_trailing_def power_int_minus)
  from trade_plan_price_order [OF plan _ binary64_2000 cfg tp] big plan
  show ?thesis by simp
qed

text \<open>
  C9 as stated fails for configurations that both validations accept: with
  \<^verbatim>\<open>min_profit_roi = 0\<close> the take-profit price of a long plan is the entry price, and
  with \<^verbatim>\<open>stop_loss_roi\<close> and \<^verbatim>\<open>min_profit_roi\<close> equal to \<open>2\<^sup>-\<^sup>4\<^sup>4\<close> the stop-loss and
  the take-profit price are both the entry price. It also fails for a negative entry
  price, where the stop-loss of a long plan is not below the entry.
\<close>

theorem trade_plan_price_order_counterexample:
  "validate_inputs (default_inputs\<lparr>min_profit_roi := 0\<rparr>) = Inr () \<and>
   validate_trailing default_trailing = Inr () \<and>
   (\<exists>plan. build_trade_plan ''long'' 2000 () (default_inputs\<lparr>min_profit_roi := 0\<rparr>)
              default_trailing 5000 1 0 = Inr plan \<and>
      \<not> plan_entry_price plan < plan_take_profit_price plan) \<and>
   (\<exists>plan. build_trade_plan ''long'' (- 2000) () default_inputs default_trailing 5000 1 0
              = Inr plan \<and>
      \<not> plan_stop_loss_price plan < plan_entry_price plan) \<and>
   validate_inputs (default_inputs\<lparr>min_profit_roi := 1 / 2 ^ 44\<rparr>) = Inr () \<and>
   validate_trailing (default_trailing\<lparr>stop_loss_roi := 1 / 2 ^ 44\<rparr>) = Inr () \<and>
   (\<exists>plan. build_trade_plan ''long'' 2000 () (default_inputs\<lparr>min_profit_roi := 1 / 2 ^ 44\<rparr>)
              (default_trailing\<lparr>stop_loss_roi := 1 / 2 ^ 44\<rparr>) 5000 1 0 = Inr plan \<and>
      plan_stop_loss_price plan = plan_entry_price plan \<and>
      plan_take_profit_price plan = plan_entry_price plan)"
proof -
  have v1: "validate_inputs (default_inputs\<lparr>min_profit_roi := 0\<rparr>) = Inr ()"
    "validate_inputs (default_inputs\<lparr>min_profit_roi := 1 / 2 ^ 44\<rparr>) = Inr ()"
    by (simp_all add: validate_inputs_def default_inputs_def math_isclose_def Let_def)
  have v2: "validate_trailing default_trailing = Inr ()"
    "validate_trailing (default_trailing\<lparr>stop_loss_roi := 1 / 2 ^ 44\<rparr>) = Inr ()"
    by (simp_all add: validate_trailing_def default_trailing_def)
  note size = default_size
  have zero: "pct_to_price Binary64 ''long'' 2000 0 LEVERAGE = Inr 2000"
    using tiny_roi_price(1) [OF binary64_2000, of 0 "''long''"] by simp
  have v3: "\<exists>plan. build_trade_plan ''long'' 2000 () (default_inputs\<lparr>min_profit_roi := 0\<rparr>)
              default_trailing 5000 1 0 = Inr plan \<and>
      \<not> plan_entry_price plan < plan_take_profit_price plan"
    by (simp add: build_trade_plan_def compute_trailing_stop_eq Let_def default_inputs_def
          size zero pct_to_price_default [of Binary64 "''long''" 2000 "- stop_loss_roi default_trailing"])
  have v4: "\<exists>plan. build_trade_plan ''long'' (- 2000) () default_inputs default_trailing 5000 1 0
              = Inr plan \<and>
      \<not> plan_stop_loss_price plan < plan_entry_price plan"
  proof -
    let ?c = "binary64 (1 + binary64 (binary64 (- stop_loss_roi default_trailing / 100) / 100))"
    have "?c \<le> 1"
      using one_minus_le [OF ratio_nonneg [of "stop_loss_roi default_trailing"]]
      by (simp add: ratio_minus) (simp add: default_trailing_def)
    then have "- 2000 * 1 \<le> - 2000 * ?c" by (intro mult_left_mono_neg) simp_all
    then have "binary64 (- 2000) \<le> binary64 (- 2000 * ?c)" by (intro binary64_mono) simp
    then have ge: "- 2000 \<le> binary64 (- 2000 * ?c)"
      by (simp add: binary64_minus binary64_2000)
    have size': "determine_position_size (Fin 5000) (Fin (- 2000)) (Fin 1) LEVERAGE
        (Fin CONTRACT_MULTIPLIER) = Inr 1"
      using determine_position_size_negative_entry
      by (simp add: LEVERAGE_def CONTRACT_MULTIPLIER_def)
    show ?thesis
      using ge
      by (simp add: build_trade_plan_def pct_to_price_default compute_trailing_stop_eq Let_def
            size' not_less)
  qed
  have tiny: "pct_to_price Binary64 ''long'' 2000 (1 / 2 ^ 44) LEVERAGE = Inr 2000"
    "pct_to_price Binary64 ''long'' 2000 (- (1 / 2 ^ 44)) LEVERAGE = Inr 2000"
    using tiny_roi_price [OF binary64_2000, of "1 / 2 ^ 44" "''long''"] by simp_all
  have v5: "\<exists>plan. build_trade_plan ''long'' 2000 ()
              (default_inputs\<lparr>min_profit_roi := 1 / 2 ^ 44\<rparr>)
              (default_trailing\<lparr>stop_loss_roi := 1 / 2 ^ 44\<rparr>) 5000 1 0 = Inr plan \<and>
      plan_stop_loss_price plan = plan_entry_price plan \<and>
      plan_take_profit_price plan = plan_entry_price plan"
    using tiny
    by (simp add: build_trade_plan_def compute_trailing_stop_def Let_def default_inputs_def
          default_trailing_def size)
  from v1 v2 v3 v4 v5 show ?thesis by blast
qed

section \<open>The indicators on small inputs\<close>

text \<open>
  Three evaluations of the model. The RSI of the closes 1, 3, 2 with window 2: the first
  two entries have no full window and are filled with 50, the third has average gain 1
  and average loss \<open>1/2\<close>. The average true range of three bars with window 2: the first
  entry is back-filled. The normalisation of 3 within its trailing window 4, 2, 3.
\<close>

lemma ta_rsi_example:
  "ta_rsi [Fin 1, Fin 3, Fin 2] 2 = Inr [Fin 50, Fin 50, Fin (200 / 3)]"
  by (simp add: ta_rsi_def rsi_avg_gain_def rsi_avg_loss_def diff_def shift1_def
        series_binop_def iloc_or_nan_def clip_upper_def clip_lower_def rolling_def window_at_def
        window_mean_def f64_sum_def f64_sub_def f64_gt_def replace_def fillna_def Let_def)

lemma ta_atr_example:
  "ta_atr [Fin 12, Fin 13, Fin 15] [Fin 10, Fin 11, Fin 12] [Fin 11, Fin 12, Fin 14] 2
     = Inr [Fin 2, Fin 2, Fin (5 / 2)]"
  by (simp add: ta_atr_def diff_def shift1_def concat_max_def series_max_def
        series_binop_def iloc_or_nan_def rolling_def window_at_def
        window_mean_def f64_sum_def f64_sub_def f64_gt_def Let_def)

lemma normalize_series_example:
  "normalize_series [Fin 1, Fin 4, Fin 2, Fin 3] 3 = Fin 50"
  by (simp add: normalize_series_def tail_def series_min_def series_max_def f64_gt_def
        f64_sub_def py_max_def py_min_def math_isclose_def Let_def)

section \<open>Facts about floats, series and rolling windows\<close>

lemma f64_div_NaN_right: "f64_div x NaN = NaN"
  by (cases x) simp_all

lemma f64_add_NaN_right: "f64_add x NaN = NaN"
  by (cases x) simp_all

lemma f64_mul_NaN_right: "f64_mul x NaN = NaN"
  by (cases x) simp_all

lemma f64_sub_NaN: "f64_sub NaN y = NaN" "f64_sub x NaN = NaN"
  by (simp_all add: f64_sub_def f64_add_NaN_right)

lemma window_mean_short:
  assumes "length win < minp"
  shows "window_mean minp win = NaN"
proof -
  have "length (filter (\<lambda>x. x \<noteq> NaN) win) < minp"
    using assms length_filter_le [of "\<lambda>x. x \<noteq> NaN" win] by linarith
  then show ?thesis by (simp add: window_mean_def Let_def)
qed

lemma window_std0_short:
  assumes "length win < minp"
  shows "window_std0 minp win = NaN"
proof -
  have "length (filter (\<lambda>x. x \<noteq> NaN) win) < minp"
    using assms length_filter_le [of "\<lambda>x. x \<noteq> NaN" win] by linarith
  then show ?thesis by (simp add: window_std0_def Let_def)
qed

lemma length_window_at: "length (window_at xs w i) \<le> length xs"
  by (simp add: window_at_def)

lemma rolling_short:
  assumes agg: "\<And>minp win. length win < minp \<Longrightarrow> agg minp win = NaN"
    and short: "int (length xs) < w"
    and mp: "mp = None \<or> mp = Some w"
  shows "rolling agg xs w mp = Inr (replicate (length xs) NaN)"
proof -
  from short have w: "0 \<le> w" and short': "length xs < nat w" by linarith+
  have "agg (nat w) (window_at xs (nat w) i) = NaN" for i
    using agg length_window_at [of xs "nat w" i] short' by simp
  then have "map (\<lambda>i. agg (nat w) (window_at xs (nat w) i)) [0..<length xs]
      = replicate (length xs) NaN"
    by (simp add: map_replicate_const)
  with w mp show ?thesis by (auto simp add: rolling_def)
qed

lemma length_rolling: "rolling agg xs w mp = Inr ys \<Longrightarrow> length ys = length xs"
  by (auto simp add: rolling_def Let_def split: if_splits)

lemma length_series_binop: "length (series_binop f xs ys) = max (length xs) (length ys)"
  by (simp add: series_binop_def)

lemma length_shift1: "length (shift1 xs) = length xs"
  by (cases xs) (simp_all add: shift1_def)

lemma length_diff: "length (diff xs) = length xs"
  by (simp add: diff_def length_series_binop length_shift1)

lemma series_binop_NaN_left:
  assumes "\<And>y. f NaN y = NaN" and "length ys \<le> n"
  shows "series_binop f (replicate n NaN) ys = replicate n NaN"
proof -
  have "iloc_or_nan (replicate n NaN) i = NaN" for i
    by (simp add: iloc_or_nan_def)
  with assms show ?thesis
    by (simp add: series_binop_def map_replicate_const max_absorb1)
qed

lemma series_binop_NaN_right:
  assumes "\<And>x. f x NaN = NaN" and "length xs \<le> n"
  shows "series_binop f xs (replicate n NaN) = replicate n NaN"
proof -
  have "iloc_or_nan (replicate n NaN) i = NaN" for i
    by (simp add: iloc_or_nan_def)
  with assms show ?thesis
    by (simp add: series_binop_def map_replicate_const max_absorb2)
qed

lemma head_all_NaN: "(case replicate n NaN of [] \<Rightarrow> NaN | y # _ \<Rightarrow> y) = NaN"
  by (cases n) simp_all

lemma bfill_all_NaN: "bfill (replicate n NaN) = replicate n NaN"
  by (induction n) (simp_all add: Let_def head_all_NaN)

lemma length_concat_max3:
  "length (concat_max [a, b, c]) = max (length a) (max (length b) (length c))"
  by (simp add: concat_max_def max.commute max.left_commute)

section \<open>Indicators on a series shorter than the window\<close>

lemma bollinger_width_short:
  assumes "length closes < 20"
  shows "bollinger_width closes = Inr (replicate (length closes) NaN)"
proof -
  let ?nan = "replicate (length closes) NaN"
  have short: "int (length closes) < 20" using assms by simp
  have basis: "rolling window_mean closes 20 None = Inr ?nan"
    by (rule rolling_short [OF window_mean_short short]) simp_all
  have std: "rolling window_std0 closes 20 None = Inr ?nan"
    by (rule rolling_short [OF window_std0_short short]) simp_all
  have upper: "series_binop f64_add ?nan ?nan = ?nan"
    by (rule series_binop_NaN_left) simp_all
  have lower: "series_binop f64_sub ?nan ?nan = ?nan"
    by (rule series_binop_NaN_left) (simp_all add: f64_sub_NaN)
  have quot: "series_binop f64_div ?nan closes = ?nan"
    by (rule series_binop_NaN_left) simp_all
  show ?thesis
    by (simp add: bollinger_width_def basis std Let_def f64_mul_NaN_right upper lower quot)
qed

lemma volume_average_short:
  assumes "int (length volumes) < volume_ma_length inputs"
  shows "volume_average volumes inputs = Inr (replicate (length volumes) NaN)"
  unfolding volume_average_def
  by (rule rolling_short [OF window_mean_short]) (use assms in simp_all)

lemma ta_atr_short:
  assumes "int (length highs) < n" and "int (length lows) < n" and "int (length closes) < n"
  shows "ta_atr highs lows closes n
    = Inr (replicate (max (length highs) (max (length lows) (length closes))) NaN)"
proof -
  let ?tr = "concat_max
                 [series_binop f64_sub highs lows,
                  map f64_abs (series_binop f64_sub highs (shift1 closes)),
                  map f64_abs (series_binop f64_sub lows (shift1 closes))]"
  have len: "length ?tr = max (length highs) (max (length lows) (length closes))"
    by (simp add: length_concat_max3 length_series_binop length_shift1 max.commute
          max.left_commute)
  have short: "int (length ?tr) < n"
    using assms unfolding len by linarith
  have "rolling window_mean ?tr n (Some n) = Inr (replicate (length ?tr) NaN)"
    by (rule rolling_short [OF window_mean_short short]) simp_all
  then show ?thesis
    by (simp add: ta_atr_def Let_def bfill_all_NaN len)
qed

lemma ta_rsi_short:
  assumes "int (length xs) < n"
  shows "ta_rsi xs n = Inr (replicate (length xs) (Fin 50))"
proof -
  let ?nan = "replicate (length xs) NaN"
  have gain: "rsi_avg_gain xs n = Inr ?nan"
    using rolling_short [where agg = window_mean and w = n and mp = "Some n"
        and xs = "clip_lower (Fin 0) (diff xs)", OF window_mean_short] assms
    by (simp add: rsi_avg_gain_def Let_def clip_lower_def length_diff)
  have loss: "rsi_avg_loss xs n = Inr ?nan"
    using rolling_short [where agg = window_mean and w = n and mp = "Some n"
        and xs = "map f64_neg (clip_upper (Fin 0) (diff xs))", OF window_mean_short] assms
    by (simp add: rsi_avg_loss_def Let_def clip_upper_def length_diff)
  have rs: "series_binop f64_div ?nan (replace (Fin 0) NaN ?nan) = ?nan"
    by (rule series_binop_NaN_left) (simp_all add: replace_def)
  show ?thesis
    by (simp add: ta_rsi_def gain loss Let_def rs fillna_def f64_sub_NaN f64_add_NaN_right)
qed

text \<open>
  C7, as amended. On a series shorter than the window no indicator raises. The average
  true range (all three series shorter than the window), the Bollinger width (fewer
  than 20 closes) and the volume average return NaN, the undefined value, at every
  entry. The RSI returns the number 50 at every entry: its \<^verbatim>\<open>fillna(50.0)\<close> replaces
  the undefined entries of the short window as it replaces those of a zero average loss.
\<close>

theorem short_series_indicators:
  "(int (length xs) < n \<longrightarrow> ta_rsi xs n = Inr (replicate (length xs) (Fin 50))) \<and>
   (int (length highs) < n \<and> int (length lows) < n \<and> int (length closes) < n \<longrightarrow>
      ta_atr highs lows closes n
        = Inr (replicate (max (length highs) (max (length lows) (length closes))) NaN)) \<and>
   (length closes < 20 \<longrightarrow> bollinger_width closes = Inr (replicate (length closes) NaN)) \<and>
   (int (length volumes) < volume_ma_length inputs \<longrightarrow>
      volume_average volumes inputs = Inr (replicate (length volumes) NaN))"
  using ta_rsi_short ta_atr_short bollinger_width_short volume_average_short by blast

theorem short_series_indicators_witness:
  "ta_rsi [Fin 1, Fin 2, Fin 3] 14 = Inr [Fin 50, Fin 50, Fin 50] \<and>
   ta_atr [Fin 3, Fin 4] [Fin 1, Fin 2] [Fin 2, Fin 3] 14 = Inr [NaN, NaN] \<and>
   bollinger_width [Fin 2, Fin 3] = Inr [NaN, NaN] \<and>
   volume_average [Fin 7] default_inputs = Inr [NaN]"
  using short_series_indicators [where xs = "[Fin 1, Fin 2, Fin 3]" and n = 14
      and highs = "[Fin 3, Fin 4]" and lows = "[Fin 1, Fin 2]" and closes = "[Fin 2, Fin 3]"
      and volumes = "[Fin 7]" and inputs = default_inputs]
  by (simp add: default_inputs_def numeral_3_eq_3 numeral_2_eq_2)

text \<open>
  C7 as stated fails for the RSI: three closes under a window of 14 give three entries
  50, which are numbers and not the undefined value.
\<close>

theorem short_series_indicators_counterexample:
  "ta_rsi [Fin 1, Fin 2, Fin 3] 14 = Inr [Fin 50, Fin 50, Fin 50] \<and> Fin 50 \<noteq> NaN"
  using ta_rsi_short [of "[Fin 1, Fin 2, Fin 3]" 14] by (simp add: numeral_3_eq_3)

section \<open>RSI with a zero average loss\<close>

lemma nth_series_binop:
  "i < max (length xs) (length ys) \<Longrightarrow>
     series_binop f xs ys ! i = f (iloc_or_nan xs i) (iloc_or_nan ys i)"
  by (simp add: series_binop_def)

lemma rsi_avg_same_error:
  "rsi_avg_loss xs n = Inr l \<Longrightarrow> \<exists>g. rsi_avg_gain xs n = Inr g \<and> length g = length xs"
  by (auto simp add: rsi_avg_loss_def rsi_avg_gain_def rolling_def Let_def clip_lower_def
        length_diff split: if_splits)

lemma length_rsi_avg_loss: "rsi_avg_loss xs n = Inr l \<Longrightarrow> length l = length xs"
  by (auto simp add: rsi_avg_loss_def Let_def clip_upper_def length_diff dest: length_rolling)

text \<open>
  C5. Whenever the rolling average loss of \<^verbatim>\<open>ta_rsi\<close> at a position is exactly 0
  (which needs a full window of defined entries), \<^verbatim>\<open>ta_rsi\<close> raises nothing and its
  value at that position is exactly 50, for every series and window length.
\<close>

theorem rsi_zero_loss_neutral:
  assumes loss: "rsi_avg_loss xs n = Inr avg_loss"
    and i: "i < length xs"
    and zero: "avg_loss ! i = Fin 0"
  shows "\<exists>out. ta_rsi xs n = Inr out \<and> length out = length xs \<and> out ! i = Fin 50"
proof -
  from rsi_avg_same_error [OF loss] obtain avg_gain
    where gain: "rsi_avg_gain xs n = Inr avg_gain" and lg: "length avg_gain = length xs"
    by blast
  have ll: "length avg_loss = length xs" by (rule length_rsi_avg_loss [OF loss])
  let ?rs = "series_binop f64_div avg_gain (replace (Fin 0) NaN avg_loss)"
  have lr: "length ?rs = length xs"
    by (simp add: length_series_binop replace_def lg ll)
  have "iloc_or_nan (replace (Fin 0) NaN avg_loss) i = NaN"
    using i zero by (simp add: iloc_or_nan_def replace_def ll)
  then have "?rs ! i = NaN"
    using i by (simp add: nth_series_binop replace_def lg ll f64_div_NaN_right)
  then have "fillna (Fin 50)
      (map (\<lambda>x. f64_sub (Fin 100) (f64_div (Fin 100) (f64_add (Fin 1) x))) ?rs) ! i = Fin 50"
    using i lr by (simp add: fillna_def f64_sub_NaN)
  then show ?thesis
    using lr by (simp add: ta_rsi_def gain loss Let_def fillna_def)
qed

lemma rsi_avg_loss_example: "rsi_avg_loss [Fin 1, Fin 2, Fin 3] 2 = Inr [NaN, NaN, Fin 0]"
  by (simp add: rsi_avg_loss_def diff_def shift1_def series_binop_def iloc_or_nan_def
        clip_upper_def rolling_def window_at_def window_mean_def f64_sum_def f64_sub_def
        f64_gt_def Let_def)

theorem rsi_zero_loss_neutral_witness:
  "\<exists>out. ta_rsi [Fin 1, Fin 2, Fin 3] 2 = Inr out \<and> length out = 3 \<and> out ! 2 = Fin 50"
  using rsi_zero_loss_neutral [OF rsi_avg_loss_example, of 2] by (simp add: numeral_3_eq_3)

section \<open>The signal scorer on fewer than two observations\<close>

text \<open>
  C8. For every snapshot whose MACD delta series has fewer than 2 observations,
  \<^verbatim>\<open>determine_signal\<close> returns the side \<^verbatim>\<open>None\<close> and a score state that holds only the
  reason \<^verbatim>\<open>"insufficient data for MACD crossover"\<close>; it raises nothing.
\<close>

theorem signal_needs_two_deltas:
  assumes "length (delta_series indicators) < 2"
  shows "determine_signal indicators inputs
    = (None, [(''reason'', Str ''insufficient data for MACD crossover'')])"
  using assms by (simp add: determine_signal_def Let_def)

theorem signal_needs_two_deltas_witness:
  "determine_signal no_data_snapshot default_inputs
    = (None, [(''reason'', Str ''insufficient data for MACD crossover'')])"
  by (rule signal_needs_two_deltas) (simp add: no_data_snapshot_def)

section \<open>Normalisation\<close>













end

